theory Spec2Isabelle
  imports Complex_Main "HOL-Library.Multiset" "HOL-Library.Log_Nat"
begin

section \<open>Python values and the operations the service applies to them\<close>

text \<open>
  The service handles the replies of a vision model after \<open>json.loads\<close>, so the values
  it works on are dynamically typed. A JSON document is a value of \<open>json\<close>; a dict keeps
  its insertion order and is an association list with distinct keys. \<open>JFloat r\<close> is the
  float that the number \<open>r\<close> reads as, the double nearest to \<open>r\<close>; \<open>json.loads\<close> also
  reads \<open>NaN\<close>, \<open>Infinity\<close> and \<open>-Infinity\<close>.
\<close>

datatype json =
    JNull
  | JBool bool
  | JInt int
  | JFloat rat
  | JNaN
  | JInfinity
  | JNegInfinity
  | JStr string
  | JArr "json list"
  | JObj "(string \<times> json) list"

text \<open>The exceptions of class \<open>Exception\<close> that the modelled code can raise.\<close>

datatype py_exn =
  AttributeError | TypeError | KeyError | JSONDecodeError | CapabilityError | OverflowError

type_synonym 'a result = "py_exn + 'a"

definition try_except :: "'a result \<Rightarrow> (py_exn \<Rightarrow> 'a result) \<Rightarrow> 'a result" where
  "try_except body handler = (case body of Inl e \<Rightarrow> handler e | Inr v \<Rightarrow> Inr v)"

definition bind_result :: "'a result \<Rightarrow> ('a \<Rightarrow> 'b result) \<Rightarrow> 'b result" where
  "bind_result m f = (case m of Inl e \<Rightarrow> Inl e | Inr v \<Rightarrow> f v)"

subsection \<open>Floats\<close>

text \<open>
  A Python float is an IEEE 754 double: a rational with a 53-bit significand, an
  infinity, or NaN. \<open>double\<close> rounds a rational to the nearest double, ties to the even
  significand: with \<open>e\<close> the exponent of \<open>x\<close>, at least \<open>-1022\<close> (gradual underflow), the
  significand is \<open>x / 2^(e-52)\<close> rounded to an integer, and the result overflows to an
  infinity when it reaches \<open>2^1024\<close>. Arithmetic is the exact operation followed by that
  rounding.
  A comparison with NaN is false. The sign of a zero is not modelled; no comparison
  sees it.
\<close>

datatype pyfloat = Fin rat | PInf | NInf | NaN

definition pow2 :: "int \<Rightarrow> rat" where
  "pow2 k = (if 0 \<le> k then 2 ^ nat k else 1 / 2 ^ nat (- k))"

text \<open>For \<open>x > 0\<close>, the \<open>e\<close> with \<open>2^e \<le> x < 2^(e+1)\<close>.\<close>

definition floor_log2 :: "rat \<Rightarrow> int" where
  "floor_log2 x =
     (let d = bitlen (fst (quotient_of x)) - bitlen (snd (quotient_of x))
      in if pow2 d \<le> x then d else d - 1)"

definition round_half_even :: "rat \<Rightarrow> int" where
  "round_half_even y =
     (let f = \<lfloor>y\<rfloor>; d = y - of_int f
      in if d < 1 / 2 then f else if 1 / 2 < d then f + 1 else if even f then f else f + 1)"

definition double :: "rat \<Rightarrow> pyfloat" where
  "double x =
     (if x = 0 then Fin 0
      else let e = max (floor_log2 \<bar>x\<bar>) (- 1022);
               m = round_half_even (x / pow2 (e - 52))
           in if 1023 < e \<or> (e = 1023 \<and> 2 ^ 53 \<le> \<bar>m\<bar>)
              then (if 0 < x then PInf else NInf)
              else Fin (of_int m * pow2 (e - 52)))"

fun fsign :: "pyfloat \<Rightarrow> int" where
  "fsign (Fin a) = (if a < 0 then - 1 else if a = 0 then 0 else 1)"
| "fsign PInf = 1"
| "fsign NInf = - 1"
| "fsign NaN = 0"

fun fmul :: "pyfloat \<Rightarrow> pyfloat \<Rightarrow> pyfloat" where
  "fmul NaN y = NaN"
| "fmul x NaN = NaN"
| "fmul (Fin a) (Fin b) = double (a * b)"
| "fmul x y =
     (if fsign x * fsign y = 0 then NaN else if 0 < fsign x * fsign y then PInf else NInf)"

fun fsub :: "pyfloat \<Rightarrow> pyfloat \<Rightarrow> pyfloat" where
  "fsub NaN y = NaN"
| "fsub x NaN = NaN"
| "fsub (Fin a) (Fin b) = double (a - b)"
| "fsub PInf PInf = NaN"
| "fsub NInf NInf = NaN"
| "fsub PInf y = PInf"
| "fsub NInf y = NInf"
| "fsub x PInf = NInf"
| "fsub x NInf = PInf"

fun fabs :: "pyfloat \<Rightarrow> pyfloat" where
  "fabs (Fin a) = Fin \<bar>a\<bar>"
| "fabs NInf = PInf"
| "fabs x = x"

text \<open>\<open>x < y\<close> and \<open>x <= y\<close> on floats.\<close>

fun flt :: "pyfloat \<Rightarrow> pyfloat \<Rightarrow> bool" where
  "flt (Fin a) (Fin b) = (a < b)"
| "flt NInf (Fin b) = True"
| "flt NInf PInf = True"
| "flt (Fin a) PInf = True"
| "flt x y = False"

fun fle :: "pyfloat \<Rightarrow> pyfloat \<Rightarrow> bool" where
  "fle (Fin a) (Fin b) = (a \<le> b)"
| "fle NaN y = False"
| "fle x NaN = False"
| "fle NInf y = True"
| "fle x PInf = True"
| "fle x y = False"

text \<open>\<open>min(x, y)\<close>: the second argument when it is less than the first, else the first.\<close>

definition fmin :: "pyfloat \<Rightarrow> pyfloat \<Rightarrow> pyfloat" where
  "fmin x y = (if flt y x then y else x)"

subsection \<open>Strings\<close>

text \<open>
  A \<open>char\<close> stands for a code point below 256. \<open>str.lower\<close> moves the upper-case
  letters of that range (\<open>A\<close>..\<open>Z\<close>, and \<open>0xC0\<close>..\<open>0xDE\<close> without \<open>0xD7\<close>) up by 32;
  \<open>str.split()\<close> without argument splits at runs of white space and yields no empty token.
\<close>

definition lower_char :: "char \<Rightarrow> char" where
  "lower_char c =
     (let n = (of_char c :: nat)
      in if (65 \<le> n \<and> n \<le> 90) \<or> (192 \<le> n \<and> n \<le> 222 \<and> n \<noteq> 215)
         then char_of (n + 32) else c)"

definition lower :: "string \<Rightarrow> string" where
  "lower s = map lower_char s"

definition is_space :: "char \<Rightarrow> bool" where
  "is_space c =
     (let n = (of_char c :: nat)
      in (9 \<le> n \<and> n \<le> 13) \<or> (28 \<le> n \<and> n \<le> 32) \<or> n = 133 \<or> n = 160)"

fun split_from :: "string \<Rightarrow> string \<Rightarrow> string list" where
  "split_from cur [] = (if cur = [] then [] else [cur])"
| "split_from cur (c # cs) =
     (if is_space c
      then (if cur = [] then split_from [] cs else cur # split_from [] cs)
      else split_from (cur @ [c]) cs)"

definition split :: "string \<Rightarrow> string list" where
  "split s = split_from [] s"

fun join :: "string \<Rightarrow> string list \<Rightarrow> string" where
  "join sep [] = []"
| "join sep [x] = x"
| "join sep (x # y # ys) = x @ sep @ join sep (y # ys)"

text \<open>\<open>sub in s\<close> on strings: \<open>sub\<close> occurs in \<open>s\<close> as a contiguous run.\<close>

fun is_prefix :: "string \<Rightarrow> string \<Rightarrow> bool" where
  "is_prefix [] s = True"
| "is_prefix (c # cs) [] = False"
| "is_prefix (c # cs) (d # ds) = (c = d \<and> is_prefix cs ds)"

fun str_contains :: "string \<Rightarrow> string \<Rightarrow> bool" where
  "str_contains sub [] = (sub = [])"
| "str_contains sub (d # ds) = (is_prefix sub (d # ds) \<or> str_contains sub ds)"

subsection \<open>Relevance scorer\<close>

text \<open>
  \<^verbatim>\<open>
  async def _calculate_text_relevance(self, query, text):
      try:
          query_words = set(query.lower().split())
          text_words = set(text.lower().split())
          overlap = len(query_words.intersection(text_words))
          return overlap / max(len(query_words), 1)
      except Exception:
          return 0.0
  \<close>
  The arguments are Python values: \<open>.lower()\<close> exists on \<open>str\<close> only and raises
  \<open>AttributeError\<close> on every other JSON value.
\<close>

definition py_lower :: "json \<Rightarrow> string result" where
  "py_lower v = (case v of JStr s \<Rightarrow> Inr (lower s) | _ \<Rightarrow> Inl AttributeError)"

definition relevance_body :: "json \<Rightarrow> json \<Rightarrow> rat result" where
  "relevance_body query text =
     bind_result (py_lower query) (\<lambda>ql.
     bind_result (py_lower text) (\<lambda>tl.
       let query_words = set (split ql);
           text_words = set (split tl);
           overlap = card (query_words \<inter> text_words)
       in Inr (of_nat overlap / of_nat (max (card query_words) 1))))"

definition calculate_text_relevance :: "json \<Rightarrow> json \<Rightarrow> rat result" where
  "calculate_text_relevance query text =
     try_except (relevance_body query text) (\<lambda>e. Inr 0)"

text \<open>The token list of a string, as the scorer sees it.\<close>

definition tokens :: "string \<Rightarrow> string list" where
  "tokens s = split (lower s)"

text \<open>The scorer on two strings, as the callers inside the service use it.\<close>

definition relevance :: "string \<Rightarrow> string \<Rightarrow> rat" where
  "relevance q t = (case calculate_text_relevance (JStr q) (JStr t) of Inr r \<Rightarrow> r | Inl e \<Rightarrow> 0)"

subsection \<open>Dynamic operations on Python values\<close>

text \<open>Truth value of a Python object in \<open>if x:\<close> and \<open>x and y\<close>.\<close>

fun truthy :: "json \<Rightarrow> bool" where
  "truthy JNull = False"
| "truthy (JBool b) = b"
| "truthy (JInt i) = (i \<noteq> 0)"
| "truthy (JFloat r) = (double r \<noteq> Fin 0)"
| "truthy JNaN = True"
| "truthy JInfinity = True"
| "truthy JNegInfinity = True"
| "truthy (JStr s) = (s \<noteq> [])"
| "truthy (JArr xs) = (xs \<noteq> [])"
| "truthy (JObj kvs) = (kvs \<noteq> [])"

text \<open>\<open>d[k] = v\<close> on a dict: an existing key keeps its position, a new key goes last.\<close>

fun dict_set :: "(string \<times> 'v) list \<Rightarrow> string \<Rightarrow> 'v \<Rightarrow> (string \<times> 'v) list" where
  "dict_set [] k v = [(k, v)]"
| "dict_set ((k', v') # kvs) k v =
     (if k' = k then (k, v) # kvs else (k', v') # dict_set kvs k v)"

definition dict_get :: "(string \<times> 'v) list \<Rightarrow> string \<Rightarrow> 'v \<Rightarrow> 'v" where
  "dict_get kvs k d = (case map_of kvs k of Some v \<Rightarrow> v | None \<Rightarrow> d)"

definition has_key :: "string \<Rightarrow> (string \<times> 'v) list \<Rightarrow> bool" where
  "has_key k kvs = (k \<in> set (map fst kvs))"

text \<open>\<open>v.get(k, d)\<close>: only a dict has the method.\<close>

fun py_get :: "json \<Rightarrow> string \<Rightarrow> json \<Rightarrow> json result" where
  "py_get (JObj kvs) k d = Inr (dict_get kvs k d)"
| "py_get v k d = Inl AttributeError"

text \<open>\<open>k in v\<close> for a string \<open>k\<close>: a key of a dict, an element of a list, a substring of a
  string; the other values are not containers.\<close>

fun py_contains :: "string \<Rightarrow> json \<Rightarrow> bool result" where
  "py_contains k (JObj kvs) = Inr (has_key k kvs)"
| "py_contains k (JArr xs) = Inr (JStr k \<in> set xs)"
| "py_contains k (JStr s) = Inr (str_contains k s)"
| "py_contains k v = Inl TypeError"

text \<open>\<open>v[k]\<close> for a string \<open>k\<close>: a dict raises \<open>KeyError\<close> on a missing key, every other value
  raises \<open>TypeError\<close>.\<close>

fun py_subscript :: "json \<Rightarrow> string \<Rightarrow> json result" where
  "py_subscript (JObj kvs) k = (case map_of kvs k of Some v \<Rightarrow> Inr v | None \<Rightarrow> Inl KeyError)"
| "py_subscript v k = Inl TypeError"

text \<open>\<open>v[:n]\<close>: lists and strings can be sliced; a dict cannot take a slice as key.\<close>

fun py_slice_to :: "nat \<Rightarrow> json \<Rightarrow> json result" where
  "py_slice_to n (JArr xs) = Inr (JArr (take n xs))"
| "py_slice_to n (JStr s) = Inr (JStr (take n s))"
| "py_slice_to n v = Inl TypeError"

text \<open>The items of \<open>for x in v\<close>: the elements of a list, the one-character strings of a
  string, the keys of a dict.\<close>

fun py_iter :: "json \<Rightarrow> json list result" where
  "py_iter (JArr xs) = Inr xs"
| "py_iter (JStr s) = Inr (map (\<lambda>c. JStr [c]) s)"
| "py_iter (JObj kvs) = Inr (map (\<lambda>kv. JStr (fst kv)) kvs)"
| "py_iter v = Inl TypeError"

text \<open>
  The float a value stands for as an operand of float arithmetic (\<open>bool\<close> is an \<open>int\<close>):
  an integer is converted, which raises \<open>OverflowError\<close> beyond the range of the doubles;
  a value that is no number raises \<open>TypeError\<close>.
\<close>

fun py_float :: "json \<Rightarrow> pyfloat result" where
  "py_float (JInt i) =
     (case double (of_int i) of Fin r \<Rightarrow> Inr (Fin r) | _ \<Rightarrow> Inl OverflowError)"
| "py_float (JFloat r) = Inr (double r)"
| "py_float JNaN = Inr NaN"
| "py_float JInfinity = Inr PInf"
| "py_float JNegInfinity = Inr NInf"
| "py_float (JBool b) = Inr (Fin (if b then 1 else 0))"
| "py_float v = Inl TypeError"

text \<open>
  \<open>abs(n - v) <= 1\<close> for an integer \<open>n\<close>: integer arithmetic when \<open>v\<close> is an integer or a
  \<open>bool\<close>, float arithmetic (with \<open>n\<close> converted) when \<open>v\<close> is a float.
\<close>

fun within_one :: "int \<Rightarrow> json \<Rightarrow> bool result" where
  "within_one n (JInt j) = Inr (\<bar>n - j\<bar> \<le> 1)"
| "within_one n (JBool b) = Inr (\<bar>n - (if b then 1 else 0)\<bar> \<le> 1)"
| "within_one n v =
     bind_result (py_float v) (\<lambda>y.
     bind_result (py_float (JInt n)) (\<lambda>x.
       Inr (fle (fabs (fsub x y)) (Fin 1))))"

text \<open>Decimal digits of an integer, as \<open>str\<close> prints it.\<close>

fun show_nat :: "nat \<Rightarrow> string" where
  "show_nat n = (if n < 10 then [char_of (48 + n)] else show_nat (n div 10) @ [char_of (48 + n mod 10)])"

declare show_nat.simps [simp del]

definition show_int :: "int \<Rightarrow> string" where
  "show_int i = (if i < 0 then CHR ''-'' # show_nat (nat (- i)) else show_nat (nat i))"

text \<open>
  \<open>f"{v}"\<close>: a string prints as itself, an integer in decimal, \<open>None\<close>, \<open>True\<close> and \<open>False\<close>
  by name. The text of a float, a list or a dict is left to \<open>repr\<close>, a parameter.
\<close>

fun py_format :: "(json \<Rightarrow> string) \<Rightarrow> json \<Rightarrow> string" where
  "py_format repr (JStr s) = s"
| "py_format repr (JInt i) = show_int i"
| "py_format repr JNull = ''None''"
| "py_format repr JNaN = ''nan''"
| "py_format repr JInfinity = ''inf''"
| "py_format repr JNegInfinity = ''-inf''"
| "py_format repr (JBool b) = (if b then ''True'' else ''False'')"
| "py_format repr v = repr v"

text \<open>
  \<open>json.loads\<close>: the decoder skips white space and then needs a character that can start
  a JSON value (an object, an array, a string, a number, \<open>true\<close>, \<open>false\<close>, \<open>null\<close>,
  \<open>NaN\<close>, \<open>Infinity\<close>); anything else is a \<open>JSONDecodeError\<close>. The rest of the grammar is
  the parameter \<open>dec\<close>.
\<close>

definition json_ws :: "char \<Rightarrow> bool" where
  "json_ws c = (let n = (of_char c :: nat) in n = 32 \<or> n = 9 \<or> n = 10 \<or> n = 13)"

definition json_start :: "char \<Rightarrow> bool" where
  "json_start c =
     (let n = (of_char c :: nat)
      in n = 123 \<or> n = 91 \<or> n = 34 \<or> n = 45 \<or> (48 \<le> n \<and> n \<le> 57) \<or> c \<in> set ''tfnNI'')"

definition json_loads :: "(string \<Rightarrow> json option) \<Rightarrow> string \<Rightarrow> json result" where
  "json_loads dec s =
     (case dropWhile json_ws s of
        [] \<Rightarrow> Inl JSONDecodeError
      | c # cs \<Rightarrow>
          if json_start c
          then (case dec s of None \<Rightarrow> Inl JSONDecodeError | Some v \<Rightarrow> Inr v)
          else Inl JSONDecodeError)"

section \<open>Data model\<close>

text \<open>
  \<open>ChartAnalysis\<close> and \<open>VisualTextLink\<close>, as their constructors build them. The fields
  filled from a decoded reply hold whatever value the reply had. \<open>image_id\<close> is the
  attribute that \<open>_get_chart_analysis_by_image_id\<close> probes with \<open>hasattr\<close>: \<open>None\<close> when
  the instance has no such attribute, which is how the constructor leaves it.
\<close>

record chart_analysis =
  chart_type :: json
  data_insights :: json
  text_content :: string
  confidence :: json
  queryable_facts :: "json list"
  image_id :: "json option"

definition ChartAnalysis :: "json \<Rightarrow> json \<Rightarrow> string \<Rightarrow> json \<Rightarrow> chart_analysis" where
  "ChartAnalysis ct di tc conf =
     \<lparr>chart_type = ct, data_insights = di, text_content = tc, confidence = conf,
      queryable_facts = [], image_id = None\<rparr>"

record visual_text_link =
  visual_id :: string
  text_chunks :: json
  relationship :: json
  link_confidence :: json

text \<open>
  Modelled from the spec: the declarations of \<open>SearchResult\<close>, \<open>SourceType\<close>,
  \<open>DocumentImage\<close> and \<open>DocumentChunk\<close> (module \<open>app.models.schemas\<close>) are not among
  the sources. The fields are those the spec lists and the service reads or writes.
\<close>

datatype source_type = DOCUMENT | IMAGE

record search_result =
  sr_id :: string
  sr_title :: string
  sr_content :: string
  sr_source_type :: source_type
  sr_url :: "string option"
  confidence_score :: pyfloat
  sr_metadata :: "(string \<times> json) list"

record document_image =
  img_id :: string
  img_document_id :: string
  img_page_number :: int
  image_type :: string
  description :: "string option"
  image_url :: "string option"

record document_chunk =
  chunk_id :: string
  chunk_document_id :: string
  chunk_content :: string
  chunk_page_number :: int

subsection \<open>The model capability and the service\<close>

text \<open>
  A call of the vision or text model either raises, or answers with no text, or answers
  with a text. The instruction sent is kept by kind and by the values interpolated into
  it; its fixed wording is left out.
\<close>

datatype reply = Raises | NoText | Reply string

datatype prompt =
    StructurePrompt
  | DataPrompt string
  | DescriptionPrompt string string string
  | RelationPrompt string string string

text \<open>
  The configuration and collaborators of a \<open>MultiModalService\<close>: the provider setting,
  whether each client was initialised, what each model answers, and the library
  functions taken as parameters (\<open>decoder\<close> for the grammar of \<open>json.loads\<close>, \<open>repr\<close> for
  the text of floats and containers, \<open>title_case\<close> for \<open>str.title\<close>, \<open>nan_position\<close> for
  the places \<open>list.sort\<close> gives to results when a key is NaN).
\<close>

record 'img env =
  ai_provider :: string
  genai_client :: bool
  claude_client :: bool
  gemini_vision :: "'img \<Rightarrow> prompt \<Rightarrow> reply"
  claude_vision :: "'img \<Rightarrow> prompt \<Rightarrow> reply"
  gemini_text :: "prompt \<Rightarrow> reply"
  claude_text :: "prompt \<Rightarrow> reply"
  decoder :: "string \<Rightarrow> json option"
  repr :: "json \<Rightarrow> string"
  title_case :: "string \<Rightarrow> string"
  nan_position :: "pyfloat list \<Rightarrow> pyfloat \<Rightarrow> nat"

text \<open>The two process-lifetime caches, dicts in insertion order.\<close>

record caches =
  chart_cache :: "(string \<times> chart_analysis) list"
  visual_text_links :: "(string \<times> visual_text_link) list"

definition init_caches :: caches where
  "init_caches = \<lparr>chart_cache = [], visual_text_links = []\<rparr>"

subsection \<open>Calls of the capability\<close>

text \<open>
  \<open>_analyze_with_gemini\<close> and \<open>_analyze_with_claude\<close> catch every exception of the call
  and answer the sentinel \<open>"Analysis failed"\<close>; an answer without text becomes
  \<open>"No response generated"\<close>.
\<close>

definition analyze_with_gemini :: "'img env \<Rightarrow> 'img \<Rightarrow> prompt \<Rightarrow> string" where
  "analyze_with_gemini env img p =
     (case gemini_vision env img p of
        Raises \<Rightarrow> ''Analysis failed''
      | NoText \<Rightarrow> ''No response generated''
      | Reply t \<Rightarrow> if t \<noteq> [] then t else ''No response generated'')"

definition analyze_with_claude :: "'img env \<Rightarrow> 'img \<Rightarrow> prompt \<Rightarrow> string" where
  "analyze_with_claude env img p =
     (case claude_vision env img p of
        Raises \<Rightarrow> ''Analysis failed''
      | NoText \<Rightarrow> ''No response generated''
      | Reply t \<Rightarrow> t)"

definition analyze_with_gemini_text_only :: "'img env \<Rightarrow> prompt \<Rightarrow> string" where
  "analyze_with_gemini_text_only env p =
     (case gemini_text env p of
        Raises \<Rightarrow> ''Analysis failed''
      | NoText \<Rightarrow> ''No response''
      | Reply t \<Rightarrow> if t \<noteq> [] then t else ''No response'')"

definition analyze_with_claude_text_only :: "'img env \<Rightarrow> prompt \<Rightarrow> string" where
  "analyze_with_claude_text_only env p =
     (case claude_text env p of
        Raises \<Rightarrow> ''Analysis failed''
      | NoText \<Rightarrow> ''No response''
      | Reply t \<Rightarrow> t)"

text \<open>
  The branch every stage takes before it asks:
  \<^verbatim>\<open>
  if settings.ai_provider == "gemini" and self.genai_client: ... _analyze_with_gemini
  elif settings.ai_provider == "claude" and self.claude_client: ... _analyze_with_claude
  else: (the stage's own default)
  \<close>
  \<open>None\<close> is the \<open>else\<close> branch.
\<close>

definition ask_vision :: "'img env \<Rightarrow> 'img \<Rightarrow> prompt \<Rightarrow> string option" where
  "ask_vision env img p =
     (if ai_provider env = ''gemini'' \<and> genai_client env then Some (analyze_with_gemini env img p)
      else if ai_provider env = ''claude'' \<and> claude_client env then Some (analyze_with_claude env img p)
      else None)"

definition ask_text :: "'img env \<Rightarrow> prompt \<Rightarrow> string option" where
  "ask_text env p =
     (if ai_provider env = ''gemini'' \<and> genai_client env then Some (analyze_with_gemini_text_only env p)
      else if ai_provider env = ''claude'' \<and> claude_client env then Some (analyze_with_claude_text_only env p)
      else None)"

text \<open>\<open>try: return json.loads(response)  except json.JSONDecodeError: return fallback\<close>\<close>

definition loads_or :: "'img env \<Rightarrow> string \<Rightarrow> json \<Rightarrow> json result" where
  "loads_or env response fallback =
     try_except (json_loads (decoder env) response)
       (\<lambda>e. if e = JSONDecodeError then Inr fallback else Inl e)"

section \<open>Chart analysis\<close>

subsection \<open>Stage 1: \<open>_identify_chart_structure\<close>\<close>

definition identify_body :: "'img env \<Rightarrow> 'img \<Rightarrow> json result" where
  "identify_body env img =
     (case ask_vision env img StructurePrompt of
        None \<Rightarrow> Inr (JObj [(''type'', JStr ''unknown''), (''confidence'', JFloat 0)])
      | Some response \<Rightarrow>
          loads_or env response
            (JObj [(''type'', JStr ''chart''), (''title'', JStr ''Unknown Chart''),
                   (''confidence'', JFloat (3 / 10)), (''raw_response'', JStr response)]))"

definition identify_chart_structure :: "'img env \<Rightarrow> 'img \<Rightarrow> json result" where
  "identify_chart_structure env img =
     try_except (identify_body env img)
       (\<lambda>e. Inr (JObj [(''type'', JStr ''unknown''), (''confidence'', JFloat 0)]))"

subsection \<open>Stage 2: \<open>_extract_chart_data\<close>\<close>

definition extract_body :: "'img env \<Rightarrow> 'img \<Rightarrow> json \<Rightarrow> json result" where
  "extract_body env img metadata =
     bind_result (py_get metadata ''type'' (JStr ''unknown'')) (\<lambda>ctype.
       case ask_vision env img (DataPrompt (py_format (repr env) ctype)) of
         None \<Rightarrow> Inr (JObj [])
       | Some response \<Rightarrow>
           loads_or env response
             (JObj [(''raw_analysis'', JStr response), (''data_points'', JArr [])]))"

definition extract_chart_data :: "'img env \<Rightarrow> 'img \<Rightarrow> json \<Rightarrow> json result" where
  "extract_chart_data env img metadata =
     try_except (extract_body env img metadata) (\<lambda>e. Inr (JObj []))"

subsection \<open>Stage 3: \<open>_generate_chart_text_description\<close>\<close>

text \<open>
  \<^verbatim>\<open>
  if data_insights.get("key_statistics"):
      stats = data_insights["key_statistics"]
      description += f"\n\nKey Statistics: "
      if "highest" in stats: description += f"Highest value: {stats['highest'].get('value')} "
      if "lowest" in stats:  description += f"Lowest value: {stats['lowest'].get('value')} "
      if "average" in stats: description += f"Average: {stats['average']} "
  \<close>
\<close>

definition stat_value_text ::
  "(json \<Rightarrow> string) \<Rightarrow> json \<Rightarrow> string \<Rightarrow> string \<Rightarrow> string \<Rightarrow> string result" where
  "stat_value_text fmt stats key label d =
     bind_result (py_contains key stats) (\<lambda>present.
       if present
       then bind_result (py_subscript stats key) (\<lambda>entry.
            bind_result (py_get entry ''value'' JNull) (\<lambda>v.
              Inr (d @ label @ py_format fmt v @ '' '')))
       else Inr d)"

definition key_statistics_text :: "(json \<Rightarrow> string) \<Rightarrow> json \<Rightarrow> string \<Rightarrow> string result" where
  "key_statistics_text fmt stats d0 =
     bind_result (stat_value_text fmt stats ''highest'' ''Highest value: ''
                    (d0 @ [CHR 0x0A, CHR 0x0A] @ ''Key Statistics: '')) (\<lambda>d1.
     bind_result (stat_value_text fmt stats ''lowest'' ''Lowest value: '' d1) (\<lambda>d2.
     bind_result (py_contains ''average'' stats) (\<lambda>present.
       if present
       then bind_result (py_subscript stats ''average'') (\<lambda>v.
              Inr (d2 @ ''Average: '' @ py_format fmt v @ '' ''))
       else Inr d2)))"

definition description_body :: "'img env \<Rightarrow> 'img \<Rightarrow> json \<Rightarrow> json \<Rightarrow> string \<Rightarrow> string result" where
  "description_body env img metadata insights context =
     bind_result (py_get metadata ''type'' (JStr ''chart'')) (\<lambda>ctype.
     bind_result (py_get metadata ''title'' (JStr ''Untitled Chart'')) (\<lambda>title.
       let ct = py_format (repr env) ctype;
           ti = py_format (repr env) title;
           d0 = (case ask_vision env img (DescriptionPrompt ct ti context) of
                   Some d \<Rightarrow> d
                 | None \<Rightarrow> ''Chart of type '' @ ct @ '' with title '' @ ti)
       in bind_result (py_get insights ''key_statistics'' JNull) (\<lambda>ks.
            if truthy ks
            then bind_result (py_subscript insights ''key_statistics'') (\<lambda>stats.
                   key_statistics_text (repr env) stats d0)
            else Inr d0)))"

definition generate_chart_text_description ::
  "'img env \<Rightarrow> 'img \<Rightarrow> json \<Rightarrow> json \<Rightarrow> string \<Rightarrow> string result" where
  "generate_chart_text_description env img metadata insights context =
     try_except (description_body env img metadata insights context)
       (\<lambda>e. Inr ''Chart description generation failed'')"

subsection \<open>Stage 4: \<open>_extract_queryable_facts\<close>\<close>

text \<open>
  The stage appends to the list \<open>facts\<close> inside one \<open>try\<close> and returns the list after it:
  an exception ends the stage with the facts appended so far. A run is either still
  going (\<open>Ok\<close>) or ended by an exception (\<open>Raised\<close>), with the state it reached.
\<close>

datatype 's run = Ok 's | Raised 's

fun state_of :: "'s run \<Rightarrow> 's" where
  "state_of (Ok s) = s"
| "state_of (Raised s) = s"

definition and_then :: "'s run \<Rightarrow> ('s \<Rightarrow> 's run) \<Rightarrow> 's run" where
  "and_then r f = (case r of Ok s \<Rightarrow> f s | Raised s \<Rightarrow> Raised s)"

definition attempt :: "'a result \<Rightarrow> 's \<Rightarrow> ('a \<Rightarrow> 's run) \<Rightarrow> 's run" where
  "attempt m s k = (case m of Inl e \<Rightarrow> Raised s | Inr v \<Rightarrow> k v)"

text \<open>\<open>if d.get(key): ... d[key] ...\<close>: the value at \<open>key\<close> when it is present and truthy.\<close>

definition get_truthy :: "json \<Rightarrow> string \<Rightarrow> json option result" where
  "get_truthy d key =
     bind_result (py_get d key JNull) (\<lambda>v.
       if truthy v then bind_result (py_subscript d key) (\<lambda>v'. Inr (Some v')) else Inr None)"

definition labelled_fact_step ::
  "(json \<Rightarrow> string) \<Rightarrow> json \<Rightarrow> string \<Rightarrow> string \<Rightarrow> json list \<Rightarrow> json list run" where
  "labelled_fact_step fmt metadata key label facts =
     attempt (get_truthy metadata key) facts (\<lambda>v.
       case v of None \<Rightarrow> Ok facts
       | Some t \<Rightarrow> Ok (facts @ [JStr (label @ py_format fmt t)]))"

text \<open>\<open>if "category" in point and "value" in point: f"{point['category']}: {point['value']}"\<close>\<close>

definition point_fact :: "(json \<Rightarrow> string) \<Rightarrow> json \<Rightarrow> json option result" where
  "point_fact fmt point =
     bind_result (py_contains ''category'' point) (\<lambda>c.
       if c
       then bind_result (py_contains ''value'' point) (\<lambda>v.
              if v
              then bind_result (py_subscript point ''category'') (\<lambda>cat.
                   bind_result (py_subscript point ''value'') (\<lambda>val.
                     Inr (Some (JStr (py_format fmt cat @ '': '' @ py_format fmt val)))))
              else Inr None)
       else Inr None)"

fun points_loop :: "(json \<Rightarrow> string) \<Rightarrow> json list \<Rightarrow> json list \<Rightarrow> json list run" where
  "points_loop fmt [] facts = Ok facts"
| "points_loop fmt (p # ps) facts =
     (case point_fact fmt p of
        Inl e \<Rightarrow> Raised facts
      | Inr None \<Rightarrow> points_loop fmt ps facts
      | Inr (Some f) \<Rightarrow> points_loop fmt ps (facts @ [f]))"

definition data_points_step :: "(json \<Rightarrow> string) \<Rightarrow> json \<Rightarrow> json list \<Rightarrow> json list run" where
  "data_points_step fmt insights facts =
     attempt (get_truthy insights ''data_points'') facts (\<lambda>v.
       case v of None \<Rightarrow> Ok facts
       | Some dp \<Rightarrow>
           attempt (py_slice_to 10 dp) facts (\<lambda>first.
           attempt (py_iter first) facts (\<lambda>points. points_loop fmt points facts)))"

definition trends_step :: "(json \<Rightarrow> string) \<Rightarrow> json \<Rightarrow> json list \<Rightarrow> json list run" where
  "trends_step fmt insights facts =
     attempt (get_truthy insights ''trends'') facts (\<lambda>v.
       case v of None \<Rightarrow> Ok facts
       | Some tr \<Rightarrow>
           attempt (py_iter tr) facts (\<lambda>trends.
             Ok (facts @ map (\<lambda>t. JStr (''Trend: '' @ py_format fmt t)) trends)))"

text \<open>
  \<^verbatim>\<open>
  if "highest" in stats and stats["highest"]:
      facts.append(f"Highest value: {stats['highest'].get('value')} ({stats['highest'].get('category')})")
  \<close>
\<close>

definition extreme_step ::
  "(json \<Rightarrow> string) \<Rightarrow> json \<Rightarrow> string \<Rightarrow> string \<Rightarrow> json list \<Rightarrow> json list run" where
  "extreme_step fmt stats key label facts =
     attempt (py_contains key stats) facts (\<lambda>present.
       if present
       then attempt (py_subscript stats key) facts (\<lambda>entry.
              if truthy entry
              then attempt (py_get entry ''value'' JNull) facts (\<lambda>v.
                   attempt (py_get entry ''category'' JNull) facts (\<lambda>c.
                     Ok (facts @ [JStr (label @ py_format fmt v @ '' ('' @ py_format fmt c @ '')'')])))
              else Ok facts)
       else Ok facts)"

definition average_step :: "(json \<Rightarrow> string) \<Rightarrow> json \<Rightarrow> json list \<Rightarrow> json list run" where
  "average_step fmt stats facts =
     attempt (py_contains ''average'' stats) facts (\<lambda>present.
       if present
       then attempt (py_subscript stats ''average'') facts (\<lambda>v.
              Ok (facts @ [JStr (''Average value: '' @ py_format fmt v)]))
       else Ok facts)"

definition statistics_step :: "(json \<Rightarrow> string) \<Rightarrow> json \<Rightarrow> json list \<Rightarrow> json list run" where
  "statistics_step fmt insights facts =
     attempt (py_get insights ''key_statistics'' (JObj [])) facts (\<lambda>stats.
       and_then (extreme_step fmt stats ''highest'' ''Highest value: '' facts) (\<lambda>f1.
       and_then (extreme_step fmt stats ''lowest'' ''Lowest value: '' f1) (\<lambda>f2.
         average_step fmt stats f2)))"

definition insights_step :: "json \<Rightarrow> json list \<Rightarrow> json list run" where
  "insights_step insights facts =
     attempt (get_truthy insights ''insights'') facts (\<lambda>v.
       case v of None \<Rightarrow> Ok facts
       | Some ins \<Rightarrow> attempt (py_iter ins) facts (\<lambda>items. Ok (facts @ items)))"

definition facts_run :: "(json \<Rightarrow> string) \<Rightarrow> json \<Rightarrow> json \<Rightarrow> json list run" where
  "facts_run fmt metadata insights =
     and_then (labelled_fact_step fmt metadata ''type'' ''This is a '' []) (\<lambda>f1.
     and_then (labelled_fact_step fmt metadata ''title'' ''Chart title: '' f1) (\<lambda>f2.
     and_then (data_points_step fmt insights f2) (\<lambda>f3.
     and_then (trends_step fmt insights f3) (\<lambda>f4.
     and_then (statistics_step fmt insights f4) (\<lambda>f5.
       insights_step insights f5)))))"

definition extract_queryable_facts :: "'img env \<Rightarrow> json \<Rightarrow> json \<Rightarrow> string \<Rightarrow> json list result" where
  "extract_queryable_facts env metadata insights text =
     Inr (state_of (facts_run (repr env) metadata insights))"

subsection \<open>\<open>analyze_chart_to_text\<close>\<close>

text \<open>
  The four stages in sequence, then the construction of the analysis and the cache
  write under a fresh id (\<open>str(uuid.uuid4())\<close>, here the argument \<open>new_id\<close>); the handler of
  the enclosing \<open>try\<close> returns the default analysis and leaves the cache alone.
\<close>

definition analysis_body :: "'img env \<Rightarrow> 'img \<Rightarrow> string \<Rightarrow> chart_analysis result" where
  "analysis_body env img context =
     bind_result (identify_chart_structure env img) (\<lambda>chart_metadata.
     bind_result (extract_chart_data env img chart_metadata) (\<lambda>insights.
     bind_result (generate_chart_text_description env img chart_metadata insights context) (\<lambda>text.
     bind_result (extract_queryable_facts env chart_metadata insights text) (\<lambda>facts.
     bind_result (py_get chart_metadata ''type'' (JStr ''unknown'')) (\<lambda>ctype.
     bind_result (py_get chart_metadata ''confidence'' (JFloat (1 / 2))) (\<lambda>conf.
       Inr ((ChartAnalysis ctype insights text conf)\<lparr>queryable_facts := facts\<rparr>)))))))"

definition default_analysis :: chart_analysis where
  "default_analysis = ChartAnalysis (JStr ''unknown'') (JObj []) ''Chart analysis failed'' (JFloat 0)"

definition analyze_chart_to_text ::
  "'img env \<Rightarrow> caches \<Rightarrow> 'img \<Rightarrow> string \<Rightarrow> string \<Rightarrow> chart_analysis result \<times> caches" where
  "analyze_chart_to_text env s img context new_id =
     (case analysis_body env img context of
        Inr analysis \<Rightarrow>
          (Inr analysis, s\<lparr>chart_cache := dict_set (chart_cache s) new_id analysis\<rparr>)
      | Inl e \<Rightarrow> (Inr default_analysis, s))"

section \<open>Visual-text links\<close>

text \<open>The chunks on the page of the image or on a neighbouring page.\<close>

definition related_chunks :: "document_image \<Rightarrow> document_chunk list \<Rightarrow> document_chunk list" where
  "related_chunks img chunks =
     filter (\<lambda>chunk. \<bar>chunk_page_number chunk - img_page_number img\<bar> \<le> 1) chunks"

definition proximity_fallback :: "document_chunk list \<Rightarrow> json" where
  "proximity_fallback chunks =
     JArr [JObj [(''relationship'', JStr ''general''),
                 (''text_chunks'', JArr (map (\<lambda>chunk. JStr (take 100 (chunk_content chunk))) (take 2 chunks))),
                 (''confidence'', JFloat (3 / 10)),
                 (''explanation'', JStr ''Basic proximity relationship'')]]"

definition relationships_body :: "'img env \<Rightarrow> document_image \<Rightarrow> document_chunk list \<Rightarrow> json result" where
  "relationships_body env img chunks =
     (let text = join [CHR 0x0A] (map chunk_content chunks);
          descr = (case description img of
                     Some d \<Rightarrow> if d \<noteq> [] then d else ''No description available''
                   | None \<Rightarrow> ''No description available'')
      in case ask_text env (RelationPrompt text descr (image_type img)) of
           None \<Rightarrow> Inr (JArr [])
         | Some response \<Rightarrow> loads_or env response (proximity_fallback chunks))"

definition analyze_visual_text_relationships ::
  "'img env \<Rightarrow> document_image \<Rightarrow> document_chunk list \<Rightarrow> json result" where
  "analyze_visual_text_relationships env img chunks =
     try_except (relationships_body env img chunks) (\<lambda>e. Inr (JArr []))"

text \<open>
  \<^verbatim>\<open>
  link = VisualTextLink(visual_id=image.id, text_chunks=relationship["text_chunks"],
      relationship=relationship["relationship"], confidence=relationship["confidence"])
  links.append(link)
  self.visual_text_links[image.id] = link
  \<close>
\<close>

definition make_link :: "string \<Rightarrow> json \<Rightarrow> visual_text_link result" where
  "make_link vid rel =
     bind_result (py_subscript rel ''text_chunks'') (\<lambda>tc.
     bind_result (py_subscript rel ''relationship'') (\<lambda>r.
     bind_result (py_subscript rel ''confidence'') (\<lambda>c.
       Inr \<lparr>visual_id = vid, text_chunks = tc, relationship = r, link_confidence = c\<rparr>)))"

type_synonym link_state = "visual_text_link list \<times> caches"

fun relationships_loop :: "string \<Rightarrow> json list \<Rightarrow> link_state \<Rightarrow> link_state run" where
  "relationships_loop vid [] st = Ok st"
| "relationships_loop vid (rel # rels) (links, s) =
     (case make_link vid rel of
        Inl e \<Rightarrow> Raised (links, s)
      | Inr link \<Rightarrow>
          relationships_loop vid rels
            (links @ [link], s\<lparr>visual_text_links := dict_set (visual_text_links s) vid link\<rparr>))"

definition link_image :: "'img env \<Rightarrow> document_image \<Rightarrow> document_chunk list \<Rightarrow> link_state \<Rightarrow> link_state run" where
  "link_image env img related st =
     attempt (analyze_visual_text_relationships env img related) st (\<lambda>relationships.
     attempt (py_iter relationships) st (\<lambda>rels.
       relationships_loop (img_id img) rels st))"

fun images_loop :: "'img env \<Rightarrow> document_image list \<Rightarrow> document_chunk list \<Rightarrow> link_state \<Rightarrow> link_state run" where
  "images_loop env [] chunks st = Ok st"
| "images_loop env (img # imgs) chunks st =
     (if related_chunks img chunks = [] then images_loop env imgs chunks st
      else (case link_image env img (related_chunks img chunks) st of
              Raised st' \<Rightarrow> Raised st'
            | Ok st' \<Rightarrow> images_loop env imgs chunks st'))"

definition create_visual_text_links ::
  "'img env \<Rightarrow> caches \<Rightarrow> document_image list \<Rightarrow> document_chunk list
     \<Rightarrow> visual_text_link list result \<times> caches" where
  "create_visual_text_links env s images chunks =
     (case images_loop env images chunks ([], s) of
        Ok (links, s') \<Rightarrow> (Inr links, s')
      | Raised (links, s') \<Rightarrow> (Inr [], s'))"

subsection \<open>The listing of \<open>main.py\<close>\<close>

text \<open>
  \<^verbatim>\<open>
  if not multimodal_service: raise HTTPException(status_code=503, ...)
  try:
      links = multimodal_service.visual_text_links
      document_links = [{"visual_id": link.visual_id, "relationship": link.relationship,
                         "confidence": link.confidence, "text_snippets": link.text_chunks[:3]}
                        for link in links.values() if document_id in link.visual_id]
      return {"document_id": document_id, "visual_text_links": document_links,
              "total_links": len(document_links)}
  except Exception as e:
      raise HTTPException(status_code=500, ...)
  \<close>
\<close>

datatype http_error = Http503 | Http500

record link_view =
  view_visual_id :: string
  view_relationship :: json
  view_confidence :: json
  text_snippets :: json

record links_response =
  document_id :: string
  listed_links :: "link_view list"
  total_links :: nat

fun document_links :: "string \<Rightarrow> visual_text_link list \<Rightarrow> link_view list result" where
  "document_links doc [] = Inr []"
| "document_links doc (link # links) =
     (if str_contains doc (visual_id link)
      then (case py_slice_to 3 (text_chunks link) of
              Inl e \<Rightarrow> Inl e
            | Inr snippets \<Rightarrow>
                (case document_links doc links of
                   Inl e \<Rightarrow> Inl e
                 | Inr rest \<Rightarrow>
                     Inr (\<lparr>view_visual_id = visual_id link, view_relationship = relationship link,
                           view_confidence = link_confidence link, text_snippets = snippets\<rparr> # rest)))
      else document_links doc links)"

definition get_visual_text_links :: "caches option \<Rightarrow> string \<Rightarrow> http_error + links_response" where
  "get_visual_text_links multimodal_service doc =
     (case multimodal_service of
        None \<Rightarrow> Inl Http503
      | Some s \<Rightarrow>
          (case document_links doc (map snd (visual_text_links s)) of
             Inl e \<Rightarrow> Inl Http500
           | Inr dl \<Rightarrow> Inr \<lparr>document_id = doc, listed_links = dl, total_links = length dl\<rparr>))"

text \<open>
  The global of \<open>main.py\<close> the handler reads. Its only assignments are
  \<^verbatim>\<open>multimodal_service = None  # Optional[MultiModalService] = None  # Temporarily disabled\<close>
  at module level and, in \<open>lifespan\<close>, the commented-out
  \<^verbatim>\<open># multimodal_service = MultiModalService()  # Temporarily disabled\<close>.
\<close>

definition multimodal_service :: "caches option" where
  "multimodal_service = None"

section \<open>Multi-modal search\<close>

subsection \<open>Stage 1: \<open>_enhance_text_with_visual_context\<close>\<close>

definition get_chart_analysis_by_image_id :: "caches \<Rightarrow> string \<Rightarrow> chart_analysis option" where
  "get_chart_analysis_by_image_id s iid =
     find (\<lambda>analysis. case image_id analysis of None \<Rightarrow> False | Some v \<Rightarrow> v = JStr iid)
       (map snd (chart_cache s))"

text \<open>
  \<^verbatim>\<open>
  related_images = [img for img in image_results
      if img.document_id == text_result.metadata.get("document_id") and
         abs(img.page_number - text_result.metadata.get("page_number", 0)) <= 1]
  \<close>
  The page test is evaluated for the images of the same document only, and raises when
  the \<open>page_number\<close> entry is not a number.
\<close>

fun related_images :: "(string \<times> json) list \<Rightarrow> document_image list \<Rightarrow> document_image list result" where
  "related_images md [] = Inr []"
| "related_images md (img # imgs) =
     (if JStr (img_document_id img) = dict_get md ''document_id'' JNull
      then (case within_one (img_page_number img) (dict_get md ''page_number'' (JInt 0)) of
              Inl e \<Rightarrow> Inl e
            | Inr near \<Rightarrow>
                (case related_images md imgs of
                   Inl e \<Rightarrow> Inl e
                 | Inr rest \<Rightarrow> Inr (if near then img # rest else rest)))
      else related_images md imgs)"

definition image_context :: "caches \<Rightarrow> document_image \<Rightarrow> string list" where
  "image_context s img =
     (case description img of
        Some d \<Rightarrow> if d \<noteq> [] then [''Related image: '' @ d] else []
      | None \<Rightarrow> [])
     @ (if image_type img \<in> set [''chart'', ''graph'', ''diagram'']
        then (case get_chart_analysis_by_image_id s (img_id img) of
                Some analysis \<Rightarrow> [''Chart data: '' @ take 200 (text_content analysis)]
              | None \<Rightarrow> [])
        else [])"

definition visual_context :: "caches \<Rightarrow> document_image list \<Rightarrow> string list" where
  "visual_context s related = concat (map (image_context s) (take 3 related))"

definition enhance_body :: "caches \<Rightarrow> search_result \<Rightarrow> document_image list \<Rightarrow> search_result result" where
  "enhance_body s text_result image_results =
     bind_result (related_images (sr_metadata text_result) image_results) (\<lambda>related.
       if related \<noteq> [] \<and> visual_context s related \<noteq> []
       then Inr (text_result
              \<lparr>sr_content := sr_content text_result @ [CHR 0x0A, CHR 0x0A] @ ''Visual Context: ''
                              @ join '' '' (visual_context s related),
               sr_metadata := dict_set (sr_metadata text_result) ''visual_enhancements''
                                (JInt (int (length (visual_context s related))))\<rparr>)
       else Inr text_result)"

definition enhance_text_with_visual_context ::
  "caches \<Rightarrow> search_result \<Rightarrow> document_image list \<Rightarrow> search_result result" where
  "enhance_text_with_visual_context s text_result image_results =
     try_except (enhance_body s text_result image_results) (\<lambda>e. Inr text_result)"

subsection \<open>Stage 2: \<open>_search_chart_analyses\<close>\<close>

text \<open>
  The scorer returns a float: the double nearest to the quotient that
  \<open>calculate_text_relevance\<close> gives.
\<close>

definition relevance_float :: "string \<Rightarrow> string \<Rightarrow> pyfloat result" where
  "relevance_float query text =
     bind_result (calculate_text_relevance (JStr query) (JStr text)) (\<lambda>q. Inr (double q))"

text \<open>\<open>v.title()\<close>: a method of \<open>str\<close> only.\<close>

definition py_title :: "'img env \<Rightarrow> json \<Rightarrow> string result" where
  "py_title env v = (case v of JStr s \<Rightarrow> Inr (title_case env s) | _ \<Rightarrow> Inl AttributeError)"

definition chart_result :: "'img env \<Rightarrow> string \<Rightarrow> chart_analysis \<Rightarrow> pyfloat \<Rightarrow> search_result result" where
  "chart_result env chart_id analysis rel =
     bind_result (py_title env (chart_type analysis)) (\<lambda>t.
     bind_result (py_float (confidence analysis)) (\<lambda>c.
       Inr \<lparr>sr_id = ''chart_'' @ chart_id,
            sr_title = t @ '' Chart'',
            sr_content = text_content analysis,
            sr_source_type = IMAGE,
            sr_url = None,
            confidence_score = fmul rel c,
            sr_metadata = [(''chart_type'', chart_type analysis),
                           (''data_insights'', data_insights analysis),
                           (''queryable_facts'', JArr (queryable_facts analysis))]\<rparr>))"

fun chart_loop ::
  "'img env \<Rightarrow> string \<Rightarrow> (string \<times> chart_analysis) list \<Rightarrow> search_result list \<Rightarrow> search_result list run" where
  "chart_loop env query [] results = Ok results"
| "chart_loop env query ((chart_id, analysis) # items) results =
     (case relevance_float query (text_content analysis) of
        Inl e \<Rightarrow> Raised results
      | Inr rel \<Rightarrow>
          if flt (double (3 / 10)) rel
          then (case chart_result env chart_id analysis rel of
                  Inl e \<Rightarrow> Raised results
                | Inr r \<Rightarrow> chart_loop env query items (results @ [r]))
          else chart_loop env query items results)"

definition search_chart_analyses :: "'img env \<Rightarrow> caches \<Rightarrow> string \<Rightarrow> search_result list result" where
  "search_chart_analyses env s query = Inr (state_of (chart_loop env query (chart_cache s) []))"

subsection \<open>Stage 3: \<open>_search_visual_text_links\<close>\<close>

text \<open>\<open>" ".join(v)\<close>: every item of the iterable must be a string.\<close>

fun str_items :: "json list \<Rightarrow> string list option" where
  "str_items [] = Some []"
| "str_items (JStr s # vs) = (case str_items vs of None \<Rightarrow> None | Some ss \<Rightarrow> Some (s # ss))"
| "str_items (v # vs) = None"

definition py_join :: "string \<Rightarrow> json \<Rightarrow> string result" where
  "py_join sep v =
     bind_result (py_iter v) (\<lambda>items.
       case str_items items of None \<Rightarrow> Inl TypeError | Some ss \<Rightarrow> Inr (join sep ss))"

definition link_result ::
  "'img env \<Rightarrow> string \<Rightarrow> visual_text_link \<Rightarrow> string \<Rightarrow> pyfloat \<Rightarrow> search_result result" where
  "link_result env vid link combined_text rel =
     bind_result (py_float (link_confidence link)) (\<lambda>c.
       Inr \<lparr>sr_id = ''link_'' @ vid,
            sr_title = ''Visual-Text Link ('' @ py_format (repr env) (relationship link) @ '')'',
            sr_content = ''Relationship: '' @ py_format (repr env) (relationship link) @ ''. ''
                          @ take 300 combined_text,
            sr_source_type = IMAGE,
            sr_url = None,
            confidence_score = fmul rel c,
            sr_metadata = [(''visual_id'', JStr vid),
                           (''relationship'', relationship link),
                           (''link_confidence'', link_confidence link)]\<rparr>)"

fun link_loop ::
  "'img env \<Rightarrow> string \<Rightarrow> (string \<times> visual_text_link) list \<Rightarrow> search_result list \<Rightarrow> search_result list run" where
  "link_loop env query [] results = Ok results"
| "link_loop env query ((vid, link) # items) results =
     (case py_join '' '' (text_chunks link) of
        Inl e \<Rightarrow> Raised results
      | Inr combined_text \<Rightarrow>
          (case relevance_float query combined_text of
             Inl e \<Rightarrow> Raised results
           | Inr rel \<Rightarrow>
               if flt (double (3 / 10)) rel
               then (case link_result env vid link combined_text rel of
                       Inl e \<Rightarrow> Raised results
                     | Inr r \<Rightarrow> link_loop env query items (results @ [r]))
               else link_loop env query items results))"

definition search_visual_text_links :: "'img env \<Rightarrow> caches \<Rightarrow> string \<Rightarrow> search_result list result" where
  "search_visual_text_links env s query =
     Inr (state_of (link_loop env query (visual_text_links s) []))"

subsection \<open>Objects\<close>

text \<open>
  The search changes the results it is given in place, and an object can occur in a
  list more than once. A result is therefore an object at an address: a heap maps
  addresses to the current values of the objects, and a list of results is a list of
  addresses. New results are placed above the addresses in use.
\<close>

type_synonym ref = nat

type_synonym heap = "ref \<Rightarrow> search_result"

definition fresh_ref :: "ref list \<Rightarrow> ref" where
  "fresh_ref used = fold (\<lambda>p n. max (Suc p) n) used 0"

definition allocate :: "heap \<Rightarrow> ref \<Rightarrow> search_result list \<Rightarrow> heap \<times> ref list" where
  "allocate h n rs =
     (fold (\<lambda>pr h'. h'(fst pr := snd pr)) (zip [n..<n + length rs] rs) h, [n..<n + length rs])"

subsection \<open>Stage 4: \<open>_rank_multimodal_results\<close>\<close>

text \<open>
  \<^verbatim>\<open>
  for result in results:
      base_score = result.confidence_score
      if "visual_enhancements" in result.metadata: base_score *= 1.2
      if "chart_type" in result.metadata:          base_score *= 1.3
      if "relationship" in result.metadata:        base_score *= 1.1
      result.confidence_score = min(base_score, 1.0)
  results.sort(key=lambda x: x.confidence_score, reverse=True)
  \<close>
  The loop rescores the object at every position of the list, so an object listed twice
  is rescored twice.
\<close>

definition ranked_score :: "search_result \<Rightarrow> pyfloat" where
  "ranked_score result =
     (let b0 = confidence_score result;
          b1 = (if has_key ''visual_enhancements'' (sr_metadata result)
                then fmul b0 (double (12 / 10)) else b0);
          b2 = (if has_key ''chart_type'' (sr_metadata result)
                then fmul b1 (double (13 / 10)) else b1);
          b3 = (if has_key ''relationship'' (sr_metadata result)
                then fmul b2 (double (11 / 10)) else b2)
      in fmin b3 (Fin 1))"

definition rescore :: "search_result \<Rightarrow> search_result" where
  "rescore result = result\<lparr>confidence_score := ranked_score result\<rparr>"

fun rescore_loop :: "ref list \<Rightarrow> heap \<Rightarrow> heap" where
  "rescore_loop [] h = h"
| "rescore_loop (p # ps) h = rescore_loop ps (h(p := rescore (h p)))"

text \<open>
  \<open>list.sort\<close> with \<open>reverse=True\<close> is a stable descending sort: when the keys are
  ordered, results come out by descending key and results of equal key keep their
  order, which determines the outcome. When a key is NaN the comparisons are not an
  order, and the outcome depends on how the algorithm happens to compare; it is still a
  rearrangement of the list. It is built here by inserting each result at a position
  that the parameter \<open>nan_position\<close> chooses from the keys placed so far and the new key.
\<close>

fun insert_descending :: "heap \<Rightarrow> ref \<Rightarrow> ref list \<Rightarrow> ref list" where
  "insert_descending h x [] = [x]"
| "insert_descending h x (y # ys) =
     (if fle (confidence_score (h y)) (confidence_score (h x)) then x # y # ys
      else y # insert_descending h x ys)"

definition insert_at :: "nat \<Rightarrow> 'a \<Rightarrow> 'a list \<Rightarrow> 'a list" where
  "insert_at k x xs = take k xs @ x # drop k xs"

definition sort_descending :: "'img env \<Rightarrow> heap \<Rightarrow> ref list \<Rightarrow> ref list" where
  "sort_descending env h results =
     (if list_ex (\<lambda>p. confidence_score (h p) = NaN) results
      then foldl (\<lambda>placed p.
             insert_at (nan_position env (map (\<lambda>q. confidence_score (h q)) placed)
                          (confidence_score (h p))) p placed) [] results
      else foldr (insert_descending h) results [])"

definition rank_multimodal_results ::
  "'img env \<Rightarrow> string \<Rightarrow> heap \<Rightarrow> ref list \<Rightarrow> (heap \<times> ref list) result" where
  "rank_multimodal_results env query h results =
     Inr (rescore_loop results h, sort_descending env (rescore_loop results h) results)"

subsection \<open>\<open>multi_modal_search\<close>\<close>

text \<open>
  \<^verbatim>\<open>
  try:
      enhanced_results = []
      for result in text_results:
          enhanced_result = await self._enhance_text_with_visual_context(result, image_results)
          enhanced_results.append(enhanced_result)
      chart_results = await self._search_chart_analyses(query)
      enhanced_results.extend(chart_results)
      link_results = await self._search_visual_text_links(query)
      enhanced_results.extend(link_results)
      ranked_results = await self._rank_multimodal_results(query, enhanced_results)
      return ranked_results
  except Exception as e:
      return text_results  # Fallback to original results
  \<close>
  The first stage changes each text result in place and returns the same object, so
  \<open>enhanced_results\<close> starts as the list of the caller's objects. An exception of the body
  comes with the heap it leaves; the handler returns the list the caller passed.
\<close>

fun enhance_loop ::
  "caches \<Rightarrow> ref list \<Rightarrow> document_image list \<Rightarrow> heap \<Rightarrow> (py_exn \<times> heap) + heap" where
  "enhance_loop s [] image_results h = Inr h"
| "enhance_loop s (p # ps) image_results h =
     (case enhance_text_with_visual_context s (h p) image_results of
        Inl e \<Rightarrow> Inl (e, h)
      | Inr r \<Rightarrow> enhance_loop s ps image_results (h(p := r)))"

definition search_body ::
  "'img env \<Rightarrow> caches \<Rightarrow> string \<Rightarrow> heap \<Rightarrow> ref list \<Rightarrow> document_image list
     \<Rightarrow> (py_exn \<times> heap) + (heap \<times> ref list)" where
  "search_body env s query h text_results image_results =
     (case enhance_loop s text_results image_results h of
        Inl eh \<Rightarrow> Inl eh
      | Inr h1 \<Rightarrow>
          (case search_chart_analyses env s query of
             Inl e \<Rightarrow> Inl (e, h1)
           | Inr chart_results \<Rightarrow>
               (case search_visual_text_links env s query of
                  Inl e \<Rightarrow> Inl (e, h1)
                | Inr link_results \<Rightarrow>
                    (case rank_multimodal_results env query
                            (fst (allocate h1 (fresh_ref text_results) (chart_results @ link_results)))
                            (text_results
                               @ snd (allocate h1 (fresh_ref text_results) (chart_results @ link_results))) of
                       Inl e \<Rightarrow>
                         Inl (e, fst (allocate h1 (fresh_ref text_results) (chart_results @ link_results)))
                     | Inr ranked_results \<Rightarrow> Inr ranked_results))))"

definition multi_modal_search ::
  "'img env \<Rightarrow> caches \<Rightarrow> string \<Rightarrow> heap \<Rightarrow> ref list \<Rightarrow> document_image list
     \<Rightarrow> (heap \<times> ref list) result" where
  "multi_modal_search env s query h text_results image_results =
     (case search_body env s query h text_results image_results of
        Inl eh \<Rightarrow> Inr (snd eh, text_results)
      | Inr ranked_results \<Rightarrow> Inr ranked_results)"

section \<open>The statements of the specification\<close>

text \<open>
  The ranking in the words of the specification: the score after the bonuses, the
  factors 1.2, 1.3 and 1.1 for the metadata keys \<open>visual_enhancements\<close>, \<open>chart_type\<close> and
  \<open>relationship\<close>, each applied when its key is present; a list in descending order of
  score; the results of a given score, in their order.
\<close>

definition bonus_factors :: "(string \<times> rat) list" where
  "bonus_factors = [(''visual_enhancements'', 12 / 10), (''chart_type'', 13 / 10), (''relationship'', 11 / 10)]"

definition bonus_applied :: "search_result \<Rightarrow> pyfloat" where
  "bonus_applied r =
     fold (\<lambda>kf b. if has_key (fst kf) (sr_metadata r) then fmul b (double (snd kf)) else b)
       bonus_factors (confidence_score r)"

definition descending :: "heap \<Rightarrow> ref list \<Rightarrow> bool" where
  "descending h ps =
     sorted_wrt (\<lambda>a b. fle (confidence_score (h b)) (confidence_score (h a))) ps"

definition with_score :: "heap \<Rightarrow> pyfloat \<Rightarrow> ref list \<Rightarrow> ref list" where
  "with_score h k ps = filter (\<lambda>p. confidence_score (h p) = k) ps"

definition no_nan :: "heap \<Rightarrow> ref list \<Rightarrow> bool" where
  "no_nan h ps = list_all (\<lambda>p. confidence_score (h p) \<noteq> NaN) ps"

text \<open>
  Cached records as the searches can use them: a chart type that is a string, a
  confidence that is a number within the range of the floats, snippets that join to a
  text.
\<close>

fun is_str :: "json \<Rightarrow> bool" where
  "is_str (JStr s) = True"
| "is_str v = False"

definition is_float_operand :: "json \<Rightarrow> bool" where
  "is_float_operand v = (case py_float v of Inr f \<Rightarrow> True | Inl e \<Rightarrow> False)"

definition float_of :: "json \<Rightarrow> pyfloat" where
  "float_of v = (case py_float v of Inr f \<Rightarrow> f | Inl e \<Rightarrow> NaN)"

definition typed_chart :: "chart_analysis \<Rightarrow> bool" where
  "typed_chart a = (is_str (chart_type a) \<and> is_float_operand (confidence a))"

definition joined_snippets :: "visual_text_link \<Rightarrow> string option" where
  "joined_snippets l = (case py_join '' '' (text_chunks l) of Inr t \<Rightarrow> Some t | Inl e \<Rightarrow> None)"

text \<open>
  An entry is relevant when the relevance of its text to the query, as a float, is
  greater than the float 0.3.
\<close>

definition above_threshold :: "string \<Rightarrow> string \<Rightarrow> bool" where
  "above_threshold query text = flt (double (3 / 10)) (double (relevance query text))"

definition chart_relevant :: "string \<Rightarrow> string \<times> chart_analysis \<Rightarrow> bool" where
  "chart_relevant query item = above_threshold query (text_content (snd item))"

definition link_relevant :: "string \<Rightarrow> string \<times> visual_text_link \<Rightarrow> bool" where
  "link_relevant query item =
     (case joined_snippets (snd item) of Some t \<Rightarrow> above_threshold query t | None \<Rightarrow> False)"

text \<open>
  The entries a search gets through: it stops at the first entry on which it raises, a
  relevant analysis that is not typed, a link whose snippets do not join, or a relevant
  link whose confidence is no float operand.
\<close>

definition chart_usable :: "string \<Rightarrow> string \<times> chart_analysis \<Rightarrow> bool" where
  "chart_usable query item = (\<not> chart_relevant query item \<or> typed_chart (snd item))"

definition link_usable :: "string \<Rightarrow> string \<times> visual_text_link \<Rightarrow> bool" where
  "link_usable query item =
     (joined_snippets (snd item) \<noteq> None
      \<and> (\<not> link_relevant query item \<or> is_float_operand (link_confidence (snd item))))"

text \<open>
  The candidate the specification asks for a cached analysis, and for a cached link: the
  score is the relevance times the cached confidence, the metadata carries the chart
  type, insights and facts, or the relationship and the link confidence.
\<close>

definition chart_match :: "string \<Rightarrow> search_result \<Rightarrow> string \<times> chart_analysis \<Rightarrow> bool" where
  "chart_match query r item =
     (sr_id r = ''chart_'' @ fst item
      \<and> sr_content r = text_content (snd item)
      \<and> confidence_score r
          = fmul (double (relevance query (text_content (snd item)))) (float_of (confidence (snd item)))
      \<and> sr_metadata r = [(''chart_type'', chart_type (snd item)),
                         (''data_insights'', data_insights (snd item)),
                         (''queryable_facts'', JArr (queryable_facts (snd item)))])"

definition link_match :: "string \<Rightarrow> search_result \<Rightarrow> string \<times> visual_text_link \<Rightarrow> bool" where
  "link_match query r item =
     (case joined_snippets (snd item) of
        None \<Rightarrow> False
      | Some t \<Rightarrow>
          sr_id r = ''link_'' @ fst item
          \<and> confidence_score r = fmul (double (relevance query t)) (float_of (link_confidence (snd item)))
          \<and> sr_metadata r = [(''visual_id'', JStr (fst item)),
                             (''relationship'', relationship (snd item)),
                             (''link_confidence'', link_confidence (snd item))])"

text \<open>
  The facts in the words of the specification, segment by segment, for a structure
  record \<open>md\<close> and an insight record \<open>di\<close>. An entry counts as present when the key is
  there with a truthy value.
\<close>

definition present :: "(string \<times> json) list \<Rightarrow> string \<Rightarrow> json option" where
  "present d key = (case map_of d key of Some v \<Rightarrow> if truthy v then Some v else None | None \<Rightarrow> None)"

definition labelled_fact :: "(json \<Rightarrow> string) \<Rightarrow> (string \<times> json) list \<Rightarrow> string \<Rightarrow> string \<Rightarrow> json list" where
  "labelled_fact fmt md key label =
     (case present md key of Some v \<Rightarrow> [JStr (label @ py_format fmt v)] | None \<Rightarrow> [])"

fun point_fact_of :: "(json \<Rightarrow> string) \<Rightarrow> json \<Rightarrow> json list" where
  "point_fact_of fmt (JObj kv) =
     (if has_key ''category'' kv \<and> has_key ''value'' kv
      then [JStr (py_format fmt (dict_get kv ''category'' JNull) @ '': ''
                  @ py_format fmt (dict_get kv ''value'' JNull))]
      else [])"
| "point_fact_of fmt v = []"

text \<open>
  The items of an entry: the elements of a list, the characters of a string, the keys
  of a record; nothing for a missing entry or any other value.
\<close>

fun items_of :: "json option \<Rightarrow> json list" where
  "items_of (Some (JArr xs)) = xs"
| "items_of (Some (JStr s)) = map (\<lambda>c. JStr [c]) s"
| "items_of (Some (JObj kv)) = map (\<lambda>kv. JStr (fst kv)) kv"
| "items_of v = []"

definition point_facts :: "(json \<Rightarrow> string) \<Rightarrow> (string \<times> json) list \<Rightarrow> json list" where
  "point_facts fmt di = concat (map (point_fact_of fmt) (take 10 (items_of (present di ''data_points''))))"

definition trend_facts :: "(json \<Rightarrow> string) \<Rightarrow> (string \<times> json) list \<Rightarrow> json list" where
  "trend_facts fmt di = map (\<lambda>t. JStr (''Trend: '' @ py_format fmt t)) (items_of (present di ''trends''))"

definition statistics_of :: "(string \<times> json) list \<Rightarrow> (string \<times> json) list" where
  "statistics_of di = (case map_of di ''key_statistics'' of Some (JObj st) \<Rightarrow> st | _ \<Rightarrow> [])"

definition extreme_fact :: "(json \<Rightarrow> string) \<Rightarrow> (string \<times> json) list \<Rightarrow> string \<Rightarrow> string \<Rightarrow> json list" where
  "extreme_fact fmt st key label =
     (case present st key of
        Some (JObj e) \<Rightarrow>
          [JStr (label @ py_format fmt (dict_get e ''value'' JNull) @ '' (''
                 @ py_format fmt (dict_get e ''category'' JNull) @ '')'')]
      | _ \<Rightarrow> [])"

definition average_fact :: "(json \<Rightarrow> string) \<Rightarrow> (string \<times> json) list \<Rightarrow> json list" where
  "average_fact fmt st =
     (case map_of st ''average'' of Some v \<Rightarrow> [JStr (''Average value: '' @ py_format fmt v)] | None \<Rightarrow> [])"

definition insight_facts :: "(string \<times> json) list \<Rightarrow> json list" where
  "insight_facts di = items_of (present di ''insights'')"

text \<open>
  The shape the extraction prompt asks of the insight record: \<open>data_points\<close> a list of
  records, \<open>trends\<close> and \<open>insights\<close> lists, \<open>key_statistics\<close> a record whose \<open>highest\<close> and
  \<open>lowest\<close> are records; each may be missing or empty.
\<close>

fun is_obj :: "json \<Rightarrow> bool" where
  "is_obj (JObj kv) = True"
| "is_obj v = False"

fun is_arr :: "json \<Rightarrow> bool" where
  "is_arr (JArr xs) = True"
| "is_arr v = False"

definition list_or_missing :: "(string \<times> json) list \<Rightarrow> string \<Rightarrow> bool" where
  "list_or_missing d key = (case present d key of None \<Rightarrow> True | Some v \<Rightarrow> is_arr v)"

definition record_or_missing :: "(string \<times> json) list \<Rightarrow> string \<Rightarrow> bool" where
  "record_or_missing d key = (case present d key of None \<Rightarrow> True | Some v \<Rightarrow> is_obj v)"

definition shaped_insights :: "(string \<times> json) list \<Rightarrow> bool" where
  "shaped_insights di =
     (list_or_missing di ''data_points''
      \<and> list_all is_obj (take 10 (items_of (present di ''data_points'')))
      \<and> list_or_missing di ''trends''
      \<and> list_or_missing di ''insights''
      \<and> (case map_of di ''key_statistics'' of None \<Rightarrow> True | Some v \<Rightarrow> is_obj v)
      \<and> record_or_missing (statistics_of di) ''highest''
      \<and> record_or_missing (statistics_of di) ''lowest'')"



text \<open>
  The links a linking pass creates, whether or not it ends by an exception; the last
  link of a visual id among them; the cache a pass leaves, entry by entry: the last
  link created for the id, or the entry that was there.
\<close>

definition created_links ::
  "'img env \<Rightarrow> caches \<Rightarrow> document_image list \<Rightarrow> document_chunk list \<Rightarrow> visual_text_link list" where
  "created_links env s images chunks = fst (state_of (images_loop env images chunks ([], s)))"

definition last_link :: "string \<Rightarrow> visual_text_link list \<Rightarrow> visual_text_link option" where
  "last_link vid links = find (\<lambda>l. visual_id l = vid) (rev links)"

definition cache_after ::
  "(string \<times> visual_text_link) list \<Rightarrow> visual_text_link list \<Rightarrow> string \<Rightarrow> visual_text_link option" where
  "cache_after c new vid = (case last_link vid new of Some l \<Rightarrow> Some l | None \<Rightarrow> map_of c vid)"

section \<open>Concrete inputs\<close>

text \<open>A service without any configured client, and one whose Gemini client raises on
  every call. Their decoder accepts no document.\<close>

definition offline_env :: "unit env" where
  "offline_env =
     \<lparr>ai_provider = ''gemini'', genai_client = False, claude_client = False,
      gemini_vision = (\<lambda>i p. Raises), claude_vision = (\<lambda>i p. Raises),
      gemini_text = (\<lambda>p. Raises), claude_text = (\<lambda>p. Raises),
      decoder = (\<lambda>s. None), repr = (\<lambda>v. ''?''), title_case = (\<lambda>s. s),
      nan_position = (\<lambda>keys key. length keys)\<rparr>"

definition failing_env :: "unit env" where
  "failing_env = offline_env\<lparr>genai_client := True\<rparr>"

definition sales_chart :: chart_analysis where
  "sales_chart = ChartAnalysis (JStr ''bar_chart'') (JObj []) ''sales by quarter'' (JFloat (3 / 5))"

definition text_hit :: search_result where
  "text_hit =
     \<lparr>sr_id = ''text_1'', sr_title = ''Sample Document'',
      sr_content = ''This document contains sales analysis for 2023'',
      sr_source_type = DOCUMENT, sr_url = None, confidence_score = double (3 / 10),
      sr_metadata = [(''document_id'', JStr ''doc_1''), (''page_number'', JInt 1)]\<rparr>"

definition ten_words :: string where
  "ten_words = ''a b c d e f g h i j''"

definition example_caches :: caches where
  "example_caches =
     \<lparr>chart_cache =
        [(''c1'', sales_chart\<lparr>text_content := ''A B C''\<rparr>),
         (''c2'', sales_chart\<lparr>text_content := ''a b c d''\<rparr>)],
      visual_text_links =
        [(''doc_1_img_1'',
          \<lparr>visual_id = ''doc_1_img_1'', text_chunks = JArr [JStr ''a b'', JStr ''c d e''],
           relationship = JStr ''illustration'', link_confidence = JFloat (4 / 5)\<rparr>),
         (''doc_2_img_1'',
          \<lparr>visual_id = ''doc_2_img_1'', text_chunks = JArr [JStr ''a'', JStr ''b c x''],
           relationship = JStr ''example'', link_confidence = JInt 1\<rparr>)]\<rparr>"

definition quarters :: json where
  "quarters = JArr [JObj [(''category'', JStr ''Q1''), (''value'', JInt 10)],
                    JObj [(''category'', JStr ''Q2''), (''value'', JInt 20)]]"

definition example_structure :: "(string \<times> json) list" where
  "example_structure = [(''type'', JStr ''bar_chart''), (''title'', JStr ''Sales''), (''confidence'', JFloat (9 / 10))]"

definition example_insights :: "(string \<times> json) list" where
  "example_insights =
     [(''data_points'', quarters),
      (''trends'', JArr [JStr ''rising'']),
      (''key_statistics'',
         JObj [(''highest'', JObj [(''category'', JStr ''Q2''), (''value'', JInt 20)]),
               (''lowest'', JObj [(''category'', JStr ''Q1''), (''value'', JInt 10)]),
               (''average'', JInt 15)]),
      (''insights'', JArr [JStr ''Second quarter doubled''])]"

text \<open>A service whose text model answers a document that decodes to two relationship
  records, one image on page 5 and chunks on the pages 3, 4, 6 and 7.\<close>

definition two_relationships :: json where
  "two_relationships =
     JArr [JObj [(''relationship'', JStr ''illustration''), (''text_chunks'', JArr [JStr ''first'']),
                 (''confidence'', JFloat (4 / 5)), (''explanation'', JStr ''shown'')],
           JObj [(''relationship'', JStr ''example''), (''text_chunks'', JArr [JStr ''second'']),
                 (''confidence'', JFloat (1 / 2)), (''explanation'', JStr ''used'')]]"

definition linking_env :: "unit env" where
  "linking_env =
     offline_env\<lparr>genai_client := True, gemini_text := (\<lambda>p. Reply ''[two records]''),
                  decoder := (\<lambda>s. Some two_relationships)\<rparr>"

definition page5_image :: document_image where
  "page5_image =
     \<lparr>img_id = ''doc_1_img_1'', img_document_id = ''doc_1'', img_page_number = 5,
      image_type = ''chart'', description = Some ''Quarterly sales chart'', image_url = None\<rparr>"

definition chunk_on :: "int \<Rightarrow> document_chunk" where
  "chunk_on p =
     \<lparr>chunk_id = ''chunk'', chunk_document_id = ''doc_1'', chunk_content = ''Sales grew'',
      chunk_page_number = p\<rparr>"

text \<open>
  The values \<open>v[:3]\<close> is defined for, the value it gives, the view of a link in the
  listing, and the cached links whose visual id contains the document id.
\<close>

definition sliceable :: "json \<Rightarrow> bool" where
  "sliceable v = (is_arr v \<or> is_str v)"

definition first_three :: "json \<Rightarrow> json" where
  "first_three v = (case v of JArr xs \<Rightarrow> JArr (take 3 xs) | JStr t \<Rightarrow> JStr (take 3 t) | _ \<Rightarrow> v)"

definition link_view_of :: "visual_text_link \<Rightarrow> link_view" where
  "link_view_of l =
     \<lparr>view_visual_id = visual_id l, view_relationship = relationship l,
      view_confidence = link_confidence l, text_snippets = first_three (text_chunks l)\<rparr>"

definition matching_links :: "string \<Rightarrow> caches \<Rightarrow> visual_text_link list" where
  "matching_links doc s = filter (\<lambda>l. str_contains doc (visual_id l)) (map snd (visual_text_links s))"

text \<open>A reply whose one relationship has \<open>null\<close> as \<open>text_chunks\<close>, and one with a string.\<close>

definition null_chunks_env :: "unit env" where
  "null_chunks_env =
     offline_env\<lparr>genai_client := True, gemini_text := (\<lambda>p. Reply ''[one record]''),
                  decoder := (\<lambda>s. Some (JArr [JObj [(''relationship'', JStr ''illustration''),
                      (''text_chunks'', JNull), (''confidence'', JFloat (4 / 5))]]))\<rparr>"

definition string_chunks_env :: "unit env" where
  "string_chunks_env =
     offline_env\<lparr>genai_client := True, gemini_text := (\<lambda>p. Reply ''[one record]''),
                  decoder := (\<lambda>s. Some (JArr [JObj [(''relationship'', JStr ''illustration''),
                      (''text_chunks'', JStr ''Sales grew''), (''confidence'', JFloat (4 / 5))]]))\<rparr>"

text \<open>
  A cache none of whose analyses has the attribute \<open>image_id\<close>; a sequence of
  \<open>analyze_chart_to_text\<close> calls, each with its image, context and generated id; and the
  fragment an image contributes by its description alone.
\<close>

definition no_image_ids :: "caches \<Rightarrow> bool" where
  "no_image_ids s = list_all (\<lambda>kv. image_id (snd kv) = None) (chart_cache s)"

fun analyze_many :: "'img env \<Rightarrow> caches \<Rightarrow> ('img \<times> string \<times> string) list \<Rightarrow> caches" where
  "analyze_many env s [] = s"
| "analyze_many env s ((img, context, new_id) # calls) =
     analyze_many env (snd (analyze_chart_to_text env s img context new_id)) calls"

definition description_context :: "document_image \<Rightarrow> string list" where
  "description_context img =
     (case description img of
        Some d \<Rightarrow> if d \<noteq> [] then [''Related image: '' @ d] else []
      | None \<Rightarrow> [])"

text \<open>A service whose vision model answers a document that decodes to an empty list,
  and the analysis a service with a failing client returns.\<close>

definition list_reply_env :: "unit env" where
  "list_reply_env =
     offline_env\<lparr>genai_client := True, gemini_vision := (\<lambda>i p. Reply ''[]''),
                  decoder := (\<lambda>s. Some (JArr []))\<rparr>"

definition failed_call_analysis :: chart_analysis where
  "failed_call_analysis =
     \<lparr>chart_type = JStr ''chart'',
      data_insights = JObj [(''raw_analysis'', JStr ''Analysis failed''), (''data_points'', JArr [])],
      text_content = ''Analysis failed'',
      confidence = JFloat (3 / 10),
      queryable_facts = [JStr ''This is a chart'', JStr ''Chart title: Unknown Chart''],
      image_id = None\<rparr>"



text \<open>
  The extraction on any record pair, segment by segment. A segment is the facts it
  emits and whether it completes; the facts of a sequence of segments are those of the
  segments up to and including the first that does not complete.
\<close>

type_synonym segment = "json list \<times> bool"

fun facts_until :: "segment list \<Rightarrow> json list" where
  "facts_until [] = []"
| "facts_until (seg # later) = (if snd seg then fst seg @ facts_until later else fst seg)"

text \<open>
  A data point the extraction cannot read: a value that is no container, or a list or
  string that holds both \<open>category\<close> and \<open>value\<close> but cannot be indexed by them.
\<close>

fun malformed_point :: "json \<Rightarrow> bool" where
  "malformed_point (JObj kv) = False"
| "malformed_point (JArr xs) = (JStr ''category'' \<in> set xs \<and> JStr ''value'' \<in> set xs)"
| "malformed_point (JStr s) = (str_contains ''category'' s \<and> str_contains ''value'' s)"
| "malformed_point v = True"

definition points_segment :: "(json \<Rightarrow> string) \<Rightarrow> (string \<times> json) list \<Rightarrow> segment" where
  "points_segment fmt di =
     (case present di ''data_points'' of
        None \<Rightarrow> ([], True)
      | Some v \<Rightarrow>
          if sliceable v
          then (concat (map (point_fact_of fmt)
                  (takeWhile (\<lambda>p. \<not> malformed_point p) (take 10 (items_of (Some v))))),
                \<not> list_ex malformed_point (take 10 (items_of (Some v))))
          else ([], False))"

fun iterable :: "json \<Rightarrow> bool" where
  "iterable (JArr xs) = True"
| "iterable (JStr s) = True"
| "iterable (JObj kv) = True"
| "iterable v = False"

definition iterable_or_missing :: "(string \<times> json) list \<Rightarrow> string \<Rightarrow> bool" where
  "iterable_or_missing d key = (case present d key of None \<Rightarrow> True | Some v \<Rightarrow> iterable v)"

text \<open>The value of \<open>data_insights.get("key_statistics", {})\<close> and the three segments on it.\<close>

definition statistics_value :: "(string \<times> json) list \<Rightarrow> json" where
  "statistics_value di = (case map_of di ''key_statistics'' of Some v \<Rightarrow> v | None \<Rightarrow> JObj [])"

fun extreme_segment :: "(json \<Rightarrow> string) \<Rightarrow> json \<Rightarrow> string \<Rightarrow> string \<Rightarrow> segment" where
  "extreme_segment fmt (JObj st) key label = (extreme_fact fmt st key label, record_or_missing st key)"
| "extreme_segment fmt (JArr xs) key label = ([], JStr key \<notin> set xs)"
| "extreme_segment fmt (JStr s) key label = ([], \<not> str_contains key s)"
| "extreme_segment fmt v key label = ([], False)"

fun average_segment :: "(json \<Rightarrow> string) \<Rightarrow> json \<Rightarrow> segment" where
  "average_segment fmt (JObj st) = (average_fact fmt st, True)"
| "average_segment fmt (JArr xs) = ([], JStr ''average'' \<notin> set xs)"
| "average_segment fmt (JStr s) = ([], \<not> str_contains ''average'' s)"
| "average_segment fmt v = ([], False)"

definition fact_segments ::
  "(json \<Rightarrow> string) \<Rightarrow> (string \<times> json) list \<Rightarrow> (string \<times> json) list \<Rightarrow> segment list" where
  "fact_segments fmt md di =
     [(labelled_fact fmt md ''type'' ''This is a '', True),
      (labelled_fact fmt md ''title'' ''Chart title: '', True),
      points_segment fmt di,
      (trend_facts fmt di, iterable_or_missing di ''trends''),
      extreme_segment fmt (statistics_value di) ''highest'' ''Highest value: '',
      extreme_segment fmt (statistics_value di) ''lowest'' ''Lowest value: '',
      average_segment fmt (statistics_value di),
      (insight_facts di, iterable_or_missing di ''insights'')]"

text \<open>
  Insight records that leave the prompted shape: a number among the data points,
  followed by a trend and an insight; and a string where the list of trends should be.
\<close>

definition number_point_insights :: "(string \<times> json) list" where
  "number_point_insights =
     [(''data_points'', JArr [JInt 5]), (''trends'', JArr [JStr ''rising'']),
      (''insights'', JArr [JStr ''Sales doubled''])]"

definition string_trend_insights :: "(string \<times> json) list" where
  "string_trend_insights = [(''trends'', JStr ''up'')]"

section \<open>Properties of the relevance scorer\<close>

lemma split_from_no_empty: "[] \<notin> set (split_from cur s)"
  by (induction s arbitrary: cur) auto

lemma split_no_empty: "[] \<notin> set (split s)"
  by (simp add: split_def split_from_no_empty)

lemma split_Nil: "split [] = []"
  by (simp add: split_def)

lemma calculate_text_relevance_str:
  "calculate_text_relevance (JStr q) (JStr t) =
     Inr (of_nat (card (set (tokens q) \<inter> set (tokens t))) / of_nat (max (card (set (tokens q))) 1))"
  by (simp add: calculate_text_relevance_def relevance_body_def try_except_def bind_result_def
      py_lower_def tokens_def Let_def)

lemma relevance_eq:
  "relevance q t =
     of_nat (card (set (tokens q) \<inter> set (tokens t))) / of_nat (max (card (set (tokens q))) 1)"
  by (simp add: relevance_def calculate_text_relevance_str)

lemma calculate_text_relevance_total: "\<exists>r. calculate_text_relevance q t = Inr r"
  by (cases "relevance_body q t") (simp_all add: calculate_text_relevance_def try_except_def)

lemma calculate_text_relevance_non_str:
  "(\<forall>s. q \<noteq> JStr s) \<or> (\<forall>s. t \<noteq> JStr s) \<Longrightarrow> calculate_text_relevance q t = Inr 0"
  by (cases q; cases t)
    (auto simp: calculate_text_relevance_def relevance_body_def try_except_def bind_result_def
      py_lower_def)

lemma relevance_range: "0 \<le> relevance q t \<and> relevance q t \<le> 1"
proof -
  let ?Q = "set (tokens q)" and ?T = "set (tokens t)"
  have "card (?Q \<inter> ?T) \<le> card ?Q"
    by (simp add: card_mono)
  then have le: "card (?Q \<inter> ?T) \<le> max (card ?Q) 1"
    by simp
  have pos: "(0::rat) < of_nat (max (card ?Q) 1)"
    by simp
  have "(of_nat (card (?Q \<inter> ?T)) :: rat) \<le> of_nat (max (card ?Q) 1)"
    using le of_nat_le_iff by blast
  then have "(of_nat (card (?Q \<inter> ?T)) :: rat) / of_nat (max (card ?Q) 1) \<le> 1"
    using pos by (simp add: divide_le_eq_1)
  moreover have "(0::rat) \<le> of_nat (card (?Q \<inter> ?T)) / of_nat (max (card ?Q) 1)"
    by simp
  ultimately show ?thesis
    by (simp add: relevance_eq)
qed

lemma relevance_empty_text: "relevance q [] = 0"
  by (simp add: relevance_eq tokens_def lower_def split_Nil)

lemma relevance_self: "relevance q q = (if tokens q = [] then 0 else 1)"
proof (cases "tokens q = []")
  case True
  then show ?thesis by (simp add: relevance_eq)
next
  case False
  then have "set (tokens q) \<noteq> {}" by simp
  then have "0 < card (set (tokens q))"
    by (simp add: card_gt_0_iff)
  then have "max (card (set (tokens q))) 1 = card (set (tokens q))"
    by simp
  with \<open>0 < card (set (tokens q))\<close> False show ?thesis
    by (simp add: relevance_eq)
qed

section \<open>Properties of the fact extraction\<close>

lemma and_then_Ok: "and_then (Ok s) f = f s"
  by (simp add: and_then_def)

lemma attempt_Inr: "attempt (Inr v) s k = k v"
  by (simp add: attempt_def)

lemma get_truthy_obj: "get_truthy (JObj d) key = Inr (present d key)"
  by (simp add: get_truthy_def present_def bind_result_def dict_get_def split: option.splits)

lemma labelled_fact_step_obj:
  "labelled_fact_step fmt (JObj md) key label facts = Ok (facts @ labelled_fact fmt md key label)"
  by (simp add: labelled_fact_step_def labelled_fact_def get_truthy_obj attempt_Inr split: option.splits)

lemma point_fact_obj:
  "is_obj p \<Longrightarrow> point_fact fmt p = Inr (case point_fact_of fmt p of [] \<Rightarrow> None | f # fs \<Rightarrow> Some f)"
  by (cases p) (auto simp: point_fact_def bind_result_def has_key_def dict_get_def
      split: option.splits dest: map_of_eq_None_iff [THEN iffD1])

lemma point_fact_of_cases: "point_fact_of fmt p = [] \<or> (\<exists>f. point_fact_of fmt p = [f])"
  by (cases p) auto

lemma points_loop_objs:
  "list_all is_obj ps \<Longrightarrow> points_loop fmt ps facts = Ok (facts @ concat (map (point_fact_of fmt) ps))"
proof (induction ps arbitrary: facts)
  case Nil
  then show ?case by simp
next
  case (Cons p ps)
  then have p: "is_obj p" and ps: "list_all is_obj ps" by simp_all
  from point_fact_of_cases [of fmt p] show ?case
  proof
    assume "point_fact_of fmt p = []"
    then show ?thesis using Cons.IH [OF ps] by (simp add: point_fact_obj [OF p])
  next
    assume "\<exists>f. point_fact_of fmt p = [f]"
    then obtain f where "point_fact_of fmt p = [f]" by blast
    then show ?thesis using Cons.IH [OF ps] by (simp add: point_fact_obj [OF p])
  qed
qed

lemma data_points_step_obj:
  "list_or_missing di ''data_points'' \<Longrightarrow> list_all is_obj (take 10 (items_of (present di ''data_points''))) \<Longrightarrow>
     data_points_step fmt (JObj di) facts = Ok (facts @ point_facts fmt di)"
proof (cases "present di ''data_points''")
  case None
  then show ?thesis
    by (simp add: data_points_step_def get_truthy_obj attempt_Inr point_facts_def)
next
  case (Some v)
  assume "list_or_missing di ''data_points''"
  with Some obtain xs where v: "v = JArr xs"
    by (cases v) (simp_all add: list_or_missing_def)
  assume "list_all is_obj (take 10 (items_of (present di ''data_points'')))"
  with Some v have "list_all is_obj (take 10 xs)" by simp
  then show ?thesis
    using Some v
    by (simp add: data_points_step_def get_truthy_obj attempt_Inr point_facts_def points_loop_objs)
qed

lemma trends_step_obj:
  "list_or_missing di ''trends'' \<Longrightarrow> trends_step fmt (JObj di) facts = Ok (facts @ trend_facts fmt di)"
proof (cases "present di ''trends''")
  case None
  then show ?thesis
    by (simp add: trends_step_def get_truthy_obj attempt_Inr trend_facts_def)
next
  case (Some v)
  assume "list_or_missing di ''trends''"
  with Some obtain xs where v: "v = JArr xs"
    by (cases v) (simp_all add: list_or_missing_def)
  show ?thesis
    using Some v by (simp add: trends_step_def get_truthy_obj attempt_Inr trend_facts_def)
qed

lemma insights_step_obj:
  "list_or_missing di ''insights'' \<Longrightarrow> insights_step (JObj di) facts = Ok (facts @ insight_facts di)"
proof (cases "present di ''insights''")
  case None
  then show ?thesis
    by (simp add: insights_step_def get_truthy_obj attempt_Inr insight_facts_def)
next
  case (Some v)
  assume "list_or_missing di ''insights''"
  with Some obtain xs where v: "v = JArr xs"
    by (cases v) (simp_all add: list_or_missing_def)
  show ?thesis
    using Some v by (simp add: insights_step_def get_truthy_obj attempt_Inr insight_facts_def)
qed

lemma extreme_step_obj:
  "record_or_missing st key \<Longrightarrow>
     extreme_step fmt (JObj st) key label facts = Ok (facts @ extreme_fact fmt st key label)"
proof (cases "map_of st key")
  case None
  then have "\<not> has_key key st"
    by (simp add: has_key_def map_of_eq_None_iff)
  then show ?thesis using None
    by (simp add: extreme_step_def attempt_Inr extreme_fact_def present_def)
next
  case (Some v)
  then have has: "has_key key st"
    by (auto simp: has_key_def dest: map_of_SomeD intro: rev_image_eqI)
  assume shape: "record_or_missing st key"
  show ?thesis
  proof (cases "truthy v")
    case True
    with shape Some obtain e where "v = JObj e"
      by (cases v) (simp_all add: record_or_missing_def present_def)
    with True Some has show ?thesis
      by (simp add: extreme_step_def attempt_Inr extreme_fact_def present_def)
  next
    case False
    with Some has show ?thesis
      by (simp add: extreme_step_def attempt_Inr extreme_fact_def present_def)
  qed
qed

lemma average_step_obj:
  "average_step fmt (JObj st) facts = Ok (facts @ average_fact fmt st)"
proof (cases "map_of st ''average''")
  case None
  then have "\<not> has_key ''average'' st"
    by (simp add: has_key_def map_of_eq_None_iff)
  then show ?thesis using None
    by (simp add: average_step_def attempt_Inr average_fact_def)
next
  case (Some v)
  then have "has_key ''average'' st"
    by (auto simp: has_key_def dest: map_of_SomeD intro: rev_image_eqI)
  then show ?thesis using Some
    by (simp add: average_step_def attempt_Inr average_fact_def)
qed

lemma statistics_step_obj:
  assumes "case map_of di ''key_statistics'' of None \<Rightarrow> True | Some v \<Rightarrow> is_obj v"
    and "record_or_missing (statistics_of di) ''highest''"
    and "record_or_missing (statistics_of di) ''lowest''"
  shows "statistics_step fmt (JObj di) facts =
     Ok (facts @ extreme_fact fmt (statistics_of di) ''highest'' ''Highest value: ''
               @ extreme_fact fmt (statistics_of di) ''lowest'' ''Lowest value: ''
               @ average_fact fmt (statistics_of di))"
proof -
  have "dict_get di ''key_statistics'' (JObj []) = JObj (statistics_of di)"
    using assms(1)
    by (cases "map_of di ''key_statistics''"; cases "the (map_of di ''key_statistics'')")
      (simp_all add: dict_get_def statistics_of_def)
  then show ?thesis
    using assms(2,3)
    by (simp add: statistics_step_def attempt_Inr and_then_Ok extreme_step_obj average_step_obj)
qed


lemma facts_run_shaped:
  assumes "shaped_insights di"
  shows "facts_run fmt (JObj md) (JObj di) =
     Ok (labelled_fact fmt md ''type'' ''This is a ''
         @ labelled_fact fmt md ''title'' ''Chart title: ''
         @ point_facts fmt di
         @ trend_facts fmt di
         @ extreme_fact fmt (statistics_of di) ''highest'' ''Highest value: ''
         @ extreme_fact fmt (statistics_of di) ''lowest'' ''Lowest value: ''
         @ average_fact fmt (statistics_of di)
         @ insight_facts di)"
  using assms
  by (simp add: facts_run_def shaped_insights_def and_then_Ok labelled_fact_step_obj
      data_points_step_obj trends_step_obj statistics_step_obj insights_step_obj)

lemma show_int_10: "show_int 10 = ''10''" by code_simp
lemma show_int_20: "show_int 20 = ''20''" by code_simp

lemma point_fact_general:
  "point_fact fmt p =
     (if malformed_point p then Inl TypeError
      else Inr (case point_fact_of fmt p of [] \<Rightarrow> None | f # fs \<Rightarrow> Some f))"
proof (cases p)
  case (JObj kv)
  then show ?thesis using point_fact_obj [of p fmt] by simp
qed (auto simp: point_fact_def bind_result_def)

lemma points_loop_general:
  "points_loop fmt ps facts =
     (if list_ex malformed_point ps
      then Raised (facts @ concat (map (point_fact_of fmt) (takeWhile (\<lambda>p. \<not> malformed_point p) ps)))
      else Ok (facts @ concat (map (point_fact_of fmt) ps)))"
proof (induction ps arbitrary: facts)
  case Nil
  then show ?case by simp
next
  case (Cons p ps)
  from point_fact_of_cases [of fmt p] show ?case
  proof
    assume "point_fact_of fmt p = []"
    then show ?thesis using Cons.IH by (simp add: point_fact_general)
  next
    assume "\<exists>f. point_fact_of fmt p = [f]"
    then obtain f where "point_fact_of fmt p = [f]" by blast
    then show ?thesis using Cons.IH by (simp add: point_fact_general)
  qed
qed

lemma takeWhile_none:
  "\<not> list_ex P xs \<Longrightarrow> takeWhile (\<lambda>p. \<not> P p) xs = xs"
  by (induction xs) simp_all

lemma data_points_step_general:
  "data_points_step fmt (JObj di) facts =
     (if snd (points_segment fmt di) then Ok (facts @ fst (points_segment fmt di))
      else Raised (facts @ fst (points_segment fmt di)))"
proof (cases "present di ''data_points''")
  case None
  then show ?thesis
    by (simp add: data_points_step_def get_truthy_obj attempt_Inr points_segment_def)
next
  case (Some v)
  show ?thesis
  proof (cases v)
    case (JArr xs)
    with Some show ?thesis
      by (simp add: data_points_step_def get_truthy_obj attempt_Inr points_segment_def
          sliceable_def points_loop_general takeWhile_none)
  next
    case (JStr t)
    have "map (\<lambda>c. JStr [c]) (take 10 t) = take 10 (map (\<lambda>c. JStr [c]) t)"
      by (simp add: take_map)
    with Some JStr show ?thesis
      by (simp add: data_points_step_def get_truthy_obj attempt_Inr points_segment_def
          sliceable_def points_loop_general takeWhile_none)
  qed (use Some in \<open>simp_all add: data_points_step_def get_truthy_obj attempt_def
         points_segment_def sliceable_def\<close>)
qed

lemma trends_step_general:
  "trends_step fmt (JObj di) facts =
     (if iterable_or_missing di ''trends'' then Ok (facts @ trend_facts fmt di)
      else Raised (facts @ trend_facts fmt di))"
proof (cases "present di ''trends''")
  case None
  then show ?thesis
    by (simp add: trends_step_def get_truthy_obj attempt_Inr trend_facts_def iterable_or_missing_def)
next
  case (Some v)
  then show ?thesis
    by (cases v)
      (simp_all add: trends_step_def get_truthy_obj attempt_def trend_facts_def
        iterable_or_missing_def comp_def)
qed

lemma insights_step_general:
  "insights_step (JObj di) facts =
     (if iterable_or_missing di ''insights'' then Ok (facts @ insight_facts di)
      else Raised (facts @ insight_facts di))"
proof (cases "present di ''insights''")
  case None
  then show ?thesis
    by (simp add: insights_step_def get_truthy_obj attempt_Inr insight_facts_def iterable_or_missing_def)
next
  case (Some v)
  then show ?thesis
    by (cases v)
      (simp_all add: insights_step_def get_truthy_obj attempt_def insight_facts_def
        iterable_or_missing_def)
qed

lemma extreme_step_general:
  "extreme_step fmt v key label facts =
     (if snd (extreme_segment fmt v key label) then Ok (facts @ fst (extreme_segment fmt v key label))
      else Raised (facts @ fst (extreme_segment fmt v key label)))"
proof (cases v)
  case (JObj st)
  show ?thesis
  proof (cases "record_or_missing st key")
    case True
    with JObj show ?thesis by (simp add: extreme_step_obj)
  next
    case False
    then obtain e where e: "map_of st key = Some e" "truthy e" "\<not> is_obj e"
      by (auto simp: record_or_missing_def present_def split: option.splits if_splits)
    then have has: "has_key key st"
      by (auto simp: has_key_def dest: map_of_SomeD intro: rev_image_eqI)
    from e have "py_get e ''value'' JNull = Inl AttributeError"
      by (cases e) simp_all
    moreover from e have "extreme_fact fmt st key label = []"
      by (cases e) (simp_all add: extreme_fact_def present_def)
    ultimately show ?thesis
      using JObj False e has by (simp add: extreme_step_def attempt_def)
  qed
qed (simp_all add: extreme_step_def attempt_def)

lemma average_step_general:
  "average_step fmt v facts =
     (if snd (average_segment fmt v) then Ok (facts @ fst (average_segment fmt v))
      else Raised (facts @ fst (average_segment fmt v)))"
proof (cases v)
  case (JObj st)
  then show ?thesis by (simp add: average_step_obj)
qed (simp_all add: average_step_def attempt_def)

lemma statistics_step_general:
  "statistics_step fmt (JObj di) facts =
     and_then (extreme_step fmt (statistics_value di) ''highest'' ''Highest value: '' facts) (\<lambda>f1.
     and_then (extreme_step fmt (statistics_value di) ''lowest'' ''Lowest value: '' f1) (\<lambda>f2.
       average_step fmt (statistics_value di) f2))"
  by (simp add: statistics_step_def attempt_Inr dict_get_def statistics_value_def)

lemma facts_run_general:
  "state_of (facts_run fmt (JObj md) (JObj di)) = facts_until (fact_segments fmt md di)"
  unfolding facts_run_def statistics_step_general labelled_fact_step_obj and_then_Ok
    data_points_step_general trends_step_general extreme_step_general average_step_general
    insights_step_general fact_segments_def
  by (simp add: and_then_def)

lemma facts_run_no_record:
  "\<not> is_obj m \<Longrightarrow> state_of (facts_run fmt m i) = []"
  by (cases m) (simp_all add: facts_run_def labelled_fact_step_def get_truthy_def bind_result_def
      attempt_def and_then_def)

lemma facts_run_no_insights:
  "\<not> is_obj i \<Longrightarrow> state_of (facts_run fmt (JObj md) i)
     = labelled_fact fmt md ''type'' ''This is a '' @ labelled_fact fmt md ''title'' ''Chart title: ''"
  by (cases i) (simp_all add: facts_run_def labelled_fact_step_obj and_then_Ok data_points_step_def
      get_truthy_def bind_result_def attempt_def and_then_def)

section \<open>Properties of the linking\<close>


lemma keys_dict_set: "fst ` set (dict_set c k v) = insert k (fst ` set c)"
proof (induction c)
  case Nil
  then show ?case by simp
next
  case (Cons kv c)
  obtain k' v' where kv: "kv = (k', v')" by (cases kv)
  show ?case
  proof (cases "k' = k")
    case True
    with kv show ?thesis by auto
  next
    case False
    with kv have "fst ` set (dict_set (kv # c) k v) = insert k' (fst ` set (dict_set c k v))"
      by simp
    with Cons.IH kv show ?thesis by auto
  qed
qed

lemma distinct_dict_set: "distinct (map fst c) \<Longrightarrow> distinct (map fst (dict_set c k v))"
proof (induction c)
  case Nil
  then show ?case by simp
next
  case (Cons kv c)
  obtain k' v' where kv: "kv = (k', v')" by (cases kv)
  show ?case
  proof (cases "k' = k")
    case True
    with Cons.prems kv show ?thesis by simp
  next
    case False
    from Cons.prems kv have "k' \<notin> fst ` set c" and "distinct (map fst c)" by simp_all
    with False Cons.IH kv show ?thesis by (simp add: keys_dict_set)
  qed
qed

lemma map_of_dict_set: "map_of (dict_set c k v) = (map_of c)(k \<mapsto> v)"
  by (induction c) (auto simp: fun_eq_iff)

lemma entries_dict_set:
  "distinct (map fst c) \<Longrightarrow> filter (\<lambda>kv. fst kv = k) (dict_set c k v) = [(k, v)]"
proof (induction c)
  case Nil
  then show ?case by simp
next
  case (Cons kv c)
  obtain k' v' where kv: "kv = (k', v')" by (cases kv)
  show ?case
  proof (cases "k' = k")
    case True
    with Cons.prems kv have "k \<notin> fst ` set c" by simp
    then have "filter (\<lambda>kv. fst kv = k) c = []"
      by (auto simp: filter_empty_conv)
    with True kv show ?thesis by simp
  next
    case False
    with Cons kv show ?thesis by simp
  qed
qed

lemma entries_distinct:
  "distinct (map fst c) \<Longrightarrow> length (filter (\<lambda>kv. fst kv = k) c) \<le> 1"
proof (induction c)
  case Nil
  then show ?case by simp
next
  case (Cons kv c)
  show ?case
  proof (cases "fst kv = k")
    case True
    with Cons.prems have "k \<notin> fst ` set c" by auto
    then have "filter (\<lambda>kv. fst kv = k) c = []"
      by (auto simp: filter_empty_conv)
    with True show ?thesis by simp
  next
    case False
    with Cons show ?thesis by simp
  qed
qed

lemma relationships_loop_distinct:
  "distinct (map fst (visual_text_links (snd st))) \<Longrightarrow>
     distinct (map fst (visual_text_links (snd (state_of (relationships_loop vid rels st)))))"
proof (induction rels arbitrary: st)
  case Nil
  then show ?case by simp
next
  case (Cons rel rels)
  obtain links s where st: "st = (links, s)" by (cases st)
  show ?case
  proof (cases "make_link vid rel")
    case (Inl e)
    with Cons.prems st show ?thesis by simp
  next
    case (Inr link)
    have "distinct (map fst (visual_text_links
            (snd (links @ [link], s\<lparr>visual_text_links := dict_set (visual_text_links s) vid link\<rparr>))))"
      using Cons.prems st by (simp add: distinct_dict_set)
    from Cons.IH [OF this] Inr st show ?thesis by simp
  qed
qed

lemma link_image_distinct:
  "distinct (map fst (visual_text_links (snd st))) \<Longrightarrow>
     distinct (map fst (visual_text_links (snd (state_of (link_image env img related st)))))"
  using relationships_loop_distinct [of st]
  by (auto simp: link_image_def attempt_def split: sum.splits)

lemma images_loop_distinct:
  "distinct (map fst (visual_text_links (snd st))) \<Longrightarrow>
     distinct (map fst (visual_text_links (snd (state_of (images_loop env images chunks st)))))"
proof (induction images arbitrary: st)
  case Nil
  then show ?case by simp
next
  case (Cons img images)
  show ?case
  proof (cases "related_chunks img chunks = []")
    case True
    with Cons show ?thesis by simp
  next
    case False
    show ?thesis
    proof (cases "link_image env img (related_chunks img chunks) st")
      case (Ok st')
      with link_image_distinct [OF Cons.prems, of env img "related_chunks img chunks"]
      have "distinct (map fst (visual_text_links (snd st')))" by simp
      from Cons.IH [OF this] Ok False show ?thesis by simp
    next
      case (Raised st')
      with link_image_distinct [OF Cons.prems, of env img "related_chunks img chunks"]
      have "distinct (map fst (visual_text_links (snd st')))" by simp
      with Raised False show ?thesis by simp
    qed
  qed
qed

lemma create_links_cache:
  "snd (create_visual_text_links env s images chunks) = snd (state_of (images_loop env images chunks ([], s)))"
  by (cases "images_loop env images chunks ([], s)") (auto simp: create_visual_text_links_def)




lemma find_over_append:
  "find P (xs @ ys) = (case find P xs of Some x \<Rightarrow> Some x | None \<Rightarrow> find P ys)"
  by (induction xs) simp_all

lemma last_link_append:
  "last_link vid (xs @ ys) = (case last_link vid ys of Some l \<Rightarrow> Some l | None \<Rightarrow> last_link vid xs)"
  by (simp add: last_link_def find_over_append split: option.splits)

lemma cache_after_Nil: "cache_after c [] = map_of c"
  by (simp add: cache_after_def last_link_def fun_eq_iff)

lemma cache_after_append:
  "map_of c' = cache_after c xs \<Longrightarrow> cache_after c' ys = cache_after c (xs @ ys)"
  by (auto simp: cache_after_def last_link_append fun_eq_iff split: option.splits)

lemma make_link_id: "make_link vid rel = Inr link \<Longrightarrow> visual_id link = vid"
  by (auto simp: make_link_def bind_result_def split: sum.splits)

lemma relationships_loop_cache:
  "\<exists>new. fst (state_of (relationships_loop vid rels st)) = fst st @ new
     \<and> map_of (visual_text_links (snd (state_of (relationships_loop vid rels st))))
         = cache_after (visual_text_links (snd st)) new"
proof (induction rels arbitrary: st)
  case Nil
  have "fst st = fst st @ []" by simp
  then show ?case by (auto simp: cache_after_Nil)
next
  case (Cons rel rels)
  obtain links s where st: "st = (links, s)" by (cases st)
  show ?case
  proof (cases "make_link vid rel")
    case (Inl e)
    with st show ?thesis by (simp add: cache_after_Nil)
  next
    case (Inr link)
    let ?st1 = "(links @ [link], s\<lparr>visual_text_links := dict_set (visual_text_links s) vid link\<rparr>)"
    from Cons.IH [of ?st1] obtain new where
      new: "fst (state_of (relationships_loop vid rels ?st1)) = fst ?st1 @ new"
        "map_of (visual_text_links (snd (state_of (relationships_loop vid rels ?st1))))
           = cache_after (visual_text_links (snd ?st1)) new"
      by blast
    have step: "map_of (visual_text_links (snd ?st1)) = cache_after (visual_text_links s) [link]"
      using make_link_id [OF Inr]
      by (auto simp: map_of_dict_set cache_after_def last_link_def fun_eq_iff)
    have "fst (state_of (relationships_loop vid (rel # rels) st)) = fst st @ (link # new)"
      using new(1) Inr st by simp
    moreover have "map_of (visual_text_links (snd (state_of (relationships_loop vid (rel # rels) st))))
         = cache_after (visual_text_links (snd st)) (link # new)"
      using new(2) cache_after_append [OF step, of new] Inr st by simp
    ultimately show ?thesis by blast
  qed
qed

lemma link_image_cache:
  "\<exists>new. fst (state_of (link_image env img related st)) = fst st @ new
     \<and> map_of (visual_text_links (snd (state_of (link_image env img related st))))
         = cache_after (visual_text_links (snd st)) new"
proof -
  have same: "fst st = fst st @ [] \<and> map_of (visual_text_links (snd st)) = cache_after (visual_text_links (snd st)) []"
    by (simp add: cache_after_Nil)
  show ?thesis
  proof (cases "analyze_visual_text_relationships env img related")
    case (Inl e)
    with same show ?thesis by (auto simp: link_image_def attempt_def)
  next
    case (Inr relationships)
    show ?thesis
    proof (cases "py_iter relationships")
      case (Inl e)
      with Inr same show ?thesis by (auto simp: link_image_def attempt_def)
    next
      case (Inr rels)
      with \<open>analyze_visual_text_relationships env img related = Inr relationships\<close>
        relationships_loop_cache [of "img_id img" rels st]
      show ?thesis by (simp add: link_image_def attempt_def)
    qed
  qed
qed

lemma images_loop_cache:
  "\<exists>new. fst (state_of (images_loop env images chunks st)) = fst st @ new
     \<and> map_of (visual_text_links (snd (state_of (images_loop env images chunks st))))
         = cache_after (visual_text_links (snd st)) new"
proof (induction images arbitrary: st)
  case Nil
  have "fst st = fst st @ []" by simp
  then show ?case by (auto simp: cache_after_Nil)
next
  case (Cons img images)
  show ?case
  proof (cases "related_chunks img chunks = []")
    case True
    with Cons.IH [of st] show ?thesis by simp
  next
    case False
    from link_image_cache [of env img "related_chunks img chunks" st] obtain new1 where
      new1: "fst (state_of (link_image env img (related_chunks img chunks) st)) = fst st @ new1"
        "map_of (visual_text_links (snd (state_of (link_image env img (related_chunks img chunks) st))))
           = cache_after (visual_text_links (snd st)) new1"
      by blast
    show ?thesis
    proof (cases "link_image env img (related_chunks img chunks) st")
      case (Raised st')
      with new1 False show ?thesis by auto
    next
      case (Ok st')
      from Cons.IH [of st'] obtain new2 where
        new2: "fst (state_of (images_loop env images chunks st')) = fst st' @ new2"
          "map_of (visual_text_links (snd (state_of (images_loop env images chunks st'))))
             = cache_after (visual_text_links (snd st')) new2"
        by blast
      from new1 Ok have st': "fst st' = fst st @ new1"
        "map_of (visual_text_links (snd st')) = cache_after (visual_text_links (snd st)) new1"
        by simp_all
      have "fst (state_of (images_loop env (img # images) chunks st)) = fst st @ (new1 @ new2)"
        using new2(1) st'(1) Ok False by simp
      moreover have "map_of (visual_text_links (snd (state_of (images_loop env (img # images) chunks st))))
           = cache_after (visual_text_links (snd st)) (new1 @ new2)"
        using new2(2) cache_after_append [OF st'(2), of new2] Ok False by simp
      ultimately show ?thesis by blast
    qed
  qed
qed

lemma create_links_result:
  "fst (create_visual_text_links env s images chunks) = Inr (created_links env s images chunks)
   \<or> fst (create_visual_text_links env s images chunks) = Inr []"
  by (cases "images_loop env images chunks ([], s)")
    (auto simp: create_visual_text_links_def created_links_def)


lemma relationships_loop_two:
  assumes "make_link vid r1 = Inr l1" and "make_link vid r2 = Inr l2"
  shows "relationships_loop vid [r1, r2] (links, s) =
     Ok (links @ [l1, l2],
         s\<lparr>visual_text_links := dict_set (dict_set (visual_text_links s) vid l1) vid l2\<rparr>)"
  using assms by simp

section \<open>Properties of the listing\<close>

lemma is_prefix_iff: "is_prefix sub s \<longleftrightarrow> (\<exists>post. s = sub @ post)"
  by (induction sub s rule: is_prefix.induct) auto

lemma str_contains_iff: "str_contains sub s \<longleftrightarrow> (\<exists>pre post. s = pre @ sub @ post)"
proof (induction s)
  case Nil
  then show ?case by auto
next
  case (Cons d ds)
  show ?case
  proof
    assume "str_contains sub (d # ds)"
    then consider "is_prefix sub (d # ds)" | "str_contains sub ds" by auto
    then show "\<exists>pre post. d # ds = pre @ sub @ post"
    proof cases
      case 1
      then obtain post where "d # ds = sub @ post" by (auto simp: is_prefix_iff)
      then have "d # ds = [] @ sub @ post" by simp
      then show ?thesis by blast
    next
      case 2
      with Cons.IH obtain pre post where "ds = pre @ sub @ post" by blast
      then have "d # ds = (d # pre) @ sub @ post" by simp
      then show ?thesis by blast
    qed
  next
    assume "\<exists>pre post. d # ds = pre @ sub @ post"
    then obtain pre post where eq: "d # ds = pre @ sub @ post" by blast
    show "str_contains sub (d # ds)"
    proof (cases pre)
      case Nil
      with eq have "is_prefix sub (d # ds)" by (auto simp: is_prefix_iff)
      then show ?thesis by simp
    next
      case (Cons p pre')
      with eq have "ds = pre' @ sub @ post" by simp
      with Cons.IH have "str_contains sub ds" by blast
      then show ?thesis by simp
    qed
  qed
qed

lemma document_links_total:
  "(case document_links doc links of
      Inr dl \<Rightarrow> list_all (\<lambda>l. sliceable (text_chunks l)) (filter (\<lambda>l. str_contains doc (visual_id l)) links)
                \<and> dl = map link_view_of (filter (\<lambda>l. str_contains doc (visual_id l)) links)
    | Inl e \<Rightarrow> \<not> list_all (\<lambda>l. sliceable (text_chunks l)) (filter (\<lambda>l. str_contains doc (visual_id l)) links))"
proof (induction links)
  case Nil
  then show ?case by simp
next
  case (Cons l links)
  show ?case
  proof (cases "str_contains doc (visual_id l)")
    case False
    with Cons show ?thesis by (simp split: sum.splits)
  next
    case True
    show ?thesis
    proof (cases "text_chunks l")
      case (JArr xs)
      with True Cons show ?thesis
        by (auto simp: sliceable_def link_view_of_def first_three_def split: sum.splits)
    next
      case (JStr t)
      with True Cons show ?thesis
        by (auto simp: sliceable_def link_view_of_def first_three_def split: sum.splits)
    qed (use True in \<open>simp_all add: sliceable_def\<close>)
  qed
qed

lemma get_visual_text_links_total:
  "get_visual_text_links (Some s) doc =
     (if list_all (\<lambda>l. sliceable (text_chunks l)) (matching_links doc s)
      then Inr \<lparr>document_id = doc, listed_links = map link_view_of (matching_links doc s),
                total_links = length (matching_links doc s)\<rparr>
      else Inl Http500)"
  using document_links_total [of doc "map snd (visual_text_links s)"]
  by (auto simp: get_visual_text_links_def matching_links_def split: sum.splits)

section \<open>Properties of the analysis cache\<close>

lemma analysis_body_no_image_id: "analysis_body env img ctx = Inr a \<Longrightarrow> image_id a = None"
  by (auto simp: analysis_body_def bind_result_def ChartAnalysis_def split: sum.splits)

lemma analyze_no_image_id:
  "fst (analyze_chart_to_text env s img ctx new_id) = Inr a \<Longrightarrow> image_id a = None"
  by (cases "analysis_body env img ctx")
    (auto simp: analyze_chart_to_text_def default_analysis_def ChartAnalysis_def
      dest: analysis_body_no_image_id)

lemma list_all_dict_set: "list_all P c \<Longrightarrow> P (k, v) \<Longrightarrow> list_all P (dict_set c k v)"
  by (induction c) auto

lemma analyze_keeps_no_image_ids:
  "no_image_ids s \<Longrightarrow> no_image_ids (snd (analyze_chart_to_text env s img ctx new_id))"
  by (cases "analysis_body env img ctx")
    (auto simp: analyze_chart_to_text_def no_image_ids_def
      intro!: list_all_dict_set dest: analysis_body_no_image_id)

lemma analyze_many_no_image_ids: "no_image_ids s \<Longrightarrow> no_image_ids (analyze_many env s calls)"
proof (induction calls arbitrary: s)
  case Nil
  then show ?case by simp
next
  case (Cons call calls)
  obtain img ctx new_id where "call = (img, ctx, new_id)" by (cases call)
  with Cons show ?case by (simp add: analyze_keeps_no_image_ids)
qed

lemma lookup_no_image_ids: "no_image_ids s \<Longrightarrow> get_chart_analysis_by_image_id s iid = None"
  by (auto simp: no_image_ids_def get_chart_analysis_by_image_id_def find_None_iff list_all_iff)

lemma image_context_no_image_ids: "no_image_ids s \<Longrightarrow> image_context s img = description_context img"
  by (simp add: image_context_def description_context_def lookup_no_image_ids)

lemma visual_context_no_image_ids:
  "no_image_ids s \<Longrightarrow> visual_context s related = concat (map description_context (take 3 related))"
  by (simp add: visual_context_def image_context_no_image_ids cong: map_cong)

lemma description_context_prefix: "f \<in> set (description_context img) \<Longrightarrow> \<not> is_prefix ''Chart data: '' f"
  by (auto simp: description_context_def split: option.splits if_splits)

section \<open>Properties of the chart analysis\<close>

lemma try_except_default:
  "try_except body (\<lambda>e. Inr d) = Inr (case body of Inl e \<Rightarrow> d | Inr v \<Rightarrow> v)"
  by (cases body) (simp_all add: try_except_def)

lemma extract_total: "\<exists>v. extract_chart_data env img m = Inr v"
  by (simp add: extract_chart_data_def try_except_default)

lemma describe_total: "\<exists>t. generate_chart_text_description env img m di ctx = Inr t"
  by (simp add: generate_chart_text_description_def try_except_default)

lemma facts_total: "\<exists>fs. extract_queryable_facts env m di t = Inr fs"
  by (simp add: extract_queryable_facts_def)

lemma identify_total: "\<exists>m. identify_chart_structure env img = Inr m"
  by (simp add: identify_chart_structure_def try_except_default)

lemma analysis_body_record:
  assumes "identify_chart_structure env img = Inr (JObj md)"
  shows "\<exists>a. analysis_body env img ctx = Inr a
           \<and> chart_type a = dict_get md ''type'' (JStr ''unknown'')
           \<and> confidence a = dict_get md ''confidence'' (JFloat (1 / 2))"
proof -
  obtain di where di: "extract_chart_data env img (JObj md) = Inr di"
    using extract_total [of env img "JObj md"] by blast
  obtain t where t: "generate_chart_text_description env img (JObj md) di ctx = Inr t"
    using describe_total [of env img "JObj md" di ctx] by blast
  obtain fs where fs: "extract_queryable_facts env (JObj md) di t = Inr fs"
    using facts_total [of env "JObj md" di t] by blast
  show ?thesis
    using assms di t fs by (simp add: analysis_body_def bind_result_def ChartAnalysis_def)
qed

lemma analysis_body_other:
  assumes "identify_chart_structure env img = Inr m" and "\<not> is_obj m"
  shows "analysis_body env img ctx = Inl AttributeError"
proof -
  obtain di where di: "extract_chart_data env img m = Inr di"
    using extract_total [of env img m] by blast
  obtain t where t: "generate_chart_text_description env img m di ctx = Inr t"
    using describe_total [of env img m di ctx] by blast
  obtain fs where fs: "extract_queryable_facts env m di t = Inr fs"
    using facts_total [of env m di t] by blast
  show ?thesis
    using assms di t fs by (cases m) (simp_all add: analysis_body_def bind_result_def)
qed

lemma analyze_total: "\<exists>a. fst (analyze_chart_to_text env s img ctx nid) = Inr a"
  by (cases "analysis_body env img ctx") (simp_all add: analyze_chart_to_text_def)

lemma sentinel_not_json: "json_loads dec ''Analysis failed'' = Inl JSONDecodeError"
  by (simp add: json_loads_def json_ws_def json_start_def)

lemma loads_or_sentinel: "loads_or env ''Analysis failed'' fallback = Inr fallback"
  by (simp add: loads_or_def sentinel_not_json try_except_def)

lemma analysis_body_offline:
  assumes "\<forall>p. ask_vision env img p = None"
  shows "\<exists>a. analysis_body env img ctx = Inr a \<and> chart_type a = JStr ''unknown''
           \<and> confidence a = JFloat 0
           \<and> text_content a = ''Chart of type unknown with title Untitled Chart''"
  using assms
  by (simp add: analysis_body_def bind_result_def ChartAnalysis_def identify_chart_structure_def
      identify_body_def extract_chart_data_def extract_body_def generate_chart_text_description_def
      description_body_def extract_queryable_facts_def try_except_def dict_get_def)

lemma analysis_body_failing:
  assumes "\<forall>p. ask_vision env img p = Some ''Analysis failed''"
  shows "analysis_body env img ctx = Inr failed_call_analysis"
  using assms
  apply (simp add: analysis_body_def bind_result_def ChartAnalysis_def identify_chart_structure_def
      identify_body_def extract_chart_data_def extract_body_def generate_chart_text_description_def
      description_body_def extract_queryable_facts_def try_except_def dict_get_def
      loads_or_sentinel failed_call_analysis_def)
  apply (simp add: facts_run_def and_then_def labelled_fact_step_def get_truthy_def attempt_def
      bind_result_def dict_get_def data_points_step_def trends_step_def statistics_step_def
      extreme_step_def average_step_def insights_step_def has_key_def)
  done

lemma ask_vision_offline:
  "\<not> (ai_provider env = ''gemini'' \<and> genai_client env) \<Longrightarrow>
   \<not> (ai_provider env = ''claude'' \<and> claude_client env) \<Longrightarrow> ask_vision env img p = None"
  by (simp add: ask_vision_def)

lemma ask_vision_failing:
  "(ai_provider env = ''gemini'' \<and> genai_client env \<and> (\<forall>p. gemini_vision env img p = Raises))
   \<or> (ai_provider env = ''claude'' \<and> claude_client env \<and> (\<forall>p. claude_vision env img p = Raises))
   \<Longrightarrow> ask_vision env img p = Some ''Analysis failed''"
  by (auto simp: ask_vision_def analyze_with_gemini_def analyze_with_claude_def)

lemma failing_env_calls: "ask_vision failing_env () p = Some ''Analysis failed''"
  by (simp add: ask_vision_def analyze_with_gemini_def failing_env_def offline_env_def)

section \<open>The claims\<close>

text \<open>
  Claim C1, as amended. \<open>analyze_chart_to_text\<close> never raises. When the structure stage
  yields a record, the analysis is built from it (chart type and confidence as the
  record has them, \<open>"unknown"\<close> and 0.5 when absent) and cached under the new id; when it
  yields any other value, the handler returns the default analysis
  \<open>ChartAnalysis("unknown", {}, "Chart analysis failed", 0.0)\<close> and nothing is cached. A
  failure inside a stage is absorbed by the fallback of that stage. With no configured
  client the analysis has chart type \<open>"unknown"\<close> and confidence 0.0, and the text
  \<open>Chart of type unknown with title Untitled Chart\<close>. With a configured client whose
  every call raises, the call helper answers \<open>"Analysis failed"\<close>, which does not
  decode, and the analysis has chart type \<open>"chart"\<close>, confidence 0.3 and the text
  \<open>Analysis failed\<close>, and is cached.
\<close>

theorem analyze_chart_degradation:
  "(\<exists>a. fst (analyze_chart_to_text env s img ctx nid) = Inr a)
   \<and> (identify_chart_structure env img = Inr (JObj md) \<longrightarrow>
        (\<exists>a. analyze_chart_to_text env s img ctx nid
                = (Inr a, s\<lparr>chart_cache := dict_set (chart_cache s) nid a\<rparr>)
           \<and> chart_type a = dict_get md ''type'' (JStr ''unknown'')
           \<and> confidence a = dict_get md ''confidence'' (JFloat (1 / 2))))
   \<and> (identify_chart_structure env img = Inr m \<and> \<not> is_obj m \<longrightarrow>
        analyze_chart_to_text env s img ctx nid = (Inr default_analysis, s))
   \<and> (\<not> (ai_provider env = ''gemini'' \<and> genai_client env)
        \<and> \<not> (ai_provider env = ''claude'' \<and> claude_client env) \<longrightarrow>
        (\<exists>a. fst (analyze_chart_to_text env s img ctx nid) = Inr a
           \<and> chart_type a = JStr ''unknown'' \<and> confidence a = JFloat 0
           \<and> text_content a = ''Chart of type unknown with title Untitled Chart''))
   \<and> ((ai_provider env = ''gemini'' \<and> genai_client env \<and> (\<forall>p. gemini_vision env img p = Raises))
        \<or> (ai_provider env = ''claude'' \<and> claude_client env \<and> (\<forall>p. claude_vision env img p = Raises))
        \<longrightarrow> analyze_chart_to_text env s img ctx nid
              = (Inr failed_call_analysis,
                 s\<lparr>chart_cache := dict_set (chart_cache s) nid failed_call_analysis\<rparr>))"
proof -
  have total: "\<exists>a. fst (analyze_chart_to_text env s img ctx nid) = Inr a"
    by (rule analyze_total)
  have built: "identify_chart_structure env img = Inr (JObj md) \<longrightarrow>
        (\<exists>a. analyze_chart_to_text env s img ctx nid
                = (Inr a, s\<lparr>chart_cache := dict_set (chart_cache s) nid a\<rparr>)
           \<and> chart_type a = dict_get md ''type'' (JStr ''unknown'')
           \<and> confidence a = dict_get md ''confidence'' (JFloat (1 / 2)))"
  proof
    assume "identify_chart_structure env img = Inr (JObj md)"
    from analysis_body_record [OF this, of ctx] obtain a where
      "analysis_body env img ctx = Inr a"
      "chart_type a = dict_get md ''type'' (JStr ''unknown'')"
      "confidence a = dict_get md ''confidence'' (JFloat (1 / 2))"
      by blast
    then show "\<exists>a. analyze_chart_to_text env s img ctx nid
                = (Inr a, s\<lparr>chart_cache := dict_set (chart_cache s) nid a\<rparr>)
           \<and> chart_type a = dict_get md ''type'' (JStr ''unknown'')
           \<and> confidence a = dict_get md ''confidence'' (JFloat (1 / 2))"
      by (simp add: analyze_chart_to_text_def)
  qed
  have other: "identify_chart_structure env img = Inr m \<and> \<not> is_obj m \<longrightarrow>
        analyze_chart_to_text env s img ctx nid = (Inr default_analysis, s)"
    using analysis_body_other [of env img m ctx]
    by (auto simp: analyze_chart_to_text_def)
  have offline: "\<not> (ai_provider env = ''gemini'' \<and> genai_client env)
        \<and> \<not> (ai_provider env = ''claude'' \<and> claude_client env) \<longrightarrow>
        (\<exists>a. fst (analyze_chart_to_text env s img ctx nid) = Inr a
           \<and> chart_type a = JStr ''unknown'' \<and> confidence a = JFloat 0
           \<and> text_content a = ''Chart of type unknown with title Untitled Chart'')"
  proof
    assume "\<not> (ai_provider env = ''gemini'' \<and> genai_client env)
        \<and> \<not> (ai_provider env = ''claude'' \<and> claude_client env)"
    then have "\<forall>p. ask_vision env img p = None"
      by (simp add: ask_vision_offline)
    from analysis_body_offline [OF this, of ctx] obtain a where
      "analysis_body env img ctx = Inr a" "chart_type a = JStr ''unknown''" "confidence a = JFloat 0"
      "text_content a = ''Chart of type unknown with title Untitled Chart''"
      by blast
    then show "\<exists>a. fst (analyze_chart_to_text env s img ctx nid) = Inr a
           \<and> chart_type a = JStr ''unknown'' \<and> confidence a = JFloat 0
           \<and> text_content a = ''Chart of type unknown with title Untitled Chart''"
      by (simp add: analyze_chart_to_text_def)
  qed
  have failing: "(ai_provider env = ''gemini'' \<and> genai_client env \<and> (\<forall>p. gemini_vision env img p = Raises))
        \<or> (ai_provider env = ''claude'' \<and> claude_client env \<and> (\<forall>p. claude_vision env img p = Raises))
        \<longrightarrow> analyze_chart_to_text env s img ctx nid
              = (Inr failed_call_analysis,
                 s\<lparr>chart_cache := dict_set (chart_cache s) nid failed_call_analysis\<rparr>)"
  proof
    assume "(ai_provider env = ''gemini'' \<and> genai_client env \<and> (\<forall>p. gemini_vision env img p = Raises))
        \<or> (ai_provider env = ''claude'' \<and> claude_client env \<and> (\<forall>p. claude_vision env img p = Raises))"
    then have "\<forall>p. ask_vision env img p = Some ''Analysis failed''"
      using ask_vision_failing [of env img] by blast
    from analysis_body_failing [OF this, of ctx]
    show "analyze_chart_to_text env s img ctx nid
              = (Inr failed_call_analysis,
                 s\<lparr>chart_cache := dict_set (chart_cache s) nid failed_call_analysis\<rparr>)"
      by (simp add: analyze_chart_to_text_def)
  qed
  from total built other offline failing show ?thesis
    by blast
qed

theorem analyze_chart_degradation_witness:
  "(\<exists>a. fst (analyze_chart_to_text offline_env init_caches () ''Sales data'' ''id-1'') = Inr a
       \<and> chart_type a = JStr ''unknown'' \<and> confidence a = JFloat 0)
   \<and> analyze_chart_to_text list_reply_env init_caches () ''Sales data'' ''id-1''
       = (Inr default_analysis, init_caches)
   \<and> analyze_chart_to_text failing_env init_caches () ''Sales data'' ''id-1''
       = (Inr failed_call_analysis, init_caches\<lparr>chart_cache := [(''id-1'', failed_call_analysis)]\<rparr>)"
proof -
  have offline: "\<not> (ai_provider offline_env = ''gemini'' \<and> genai_client offline_env)
        \<and> \<not> (ai_provider offline_env = ''claude'' \<and> claude_client offline_env)"
    by (simp add: offline_env_def)
  have listed: "identify_chart_structure list_reply_env () = Inr (JArr []) \<and> \<not> is_obj (JArr [])"
    by (simp add: identify_chart_structure_def identify_body_def ask_vision_def analyze_with_gemini_def
        loads_or_def json_loads_def json_ws_def json_start_def try_except_def
        list_reply_env_def offline_env_def)
  have failing: "ai_provider failing_env = ''gemini'' \<and> genai_client failing_env
        \<and> (\<forall>p. gemini_vision failing_env () p = Raises)"
    by (simp add: failing_env_def offline_env_def)
  from analyze_chart_degradation [of offline_env init_caches "()" "''Sales data''" "''id-1''" "[]" JNull] offline
  have "\<exists>a. fst (analyze_chart_to_text offline_env init_caches () ''Sales data'' ''id-1'') = Inr a
       \<and> chart_type a = JStr ''unknown'' \<and> confidence a = JFloat 0"
    by blast
  moreover from analyze_chart_degradation [of list_reply_env init_caches "()" "''Sales data''" "''id-1''" "[]" "JArr []"] listed
  have "analyze_chart_to_text list_reply_env init_caches () ''Sales data'' ''id-1''
       = (Inr default_analysis, init_caches)"
    by blast
  moreover from analyze_chart_degradation [of failing_env init_caches "()" "''Sales data''" "''id-1''" "[]" JNull] failing
  have "analyze_chart_to_text failing_env init_caches () ''Sales data'' ''id-1''
       = (Inr failed_call_analysis, init_caches\<lparr>chart_cache := [(''id-1'', failed_call_analysis)]\<rparr>)"
    by (simp add: init_caches_def)
  ultimately show ?thesis
    by blast
qed

text \<open>
  The claim as stated fails for a service whose Gemini client raises on every call: the
  analysis returned is not the default one, its chart type is \<open>"chart"\<close> and its
  confidence 0.3.
\<close>

theorem capability_failure_counterexample:
  "gemini_vision failing_env () StructurePrompt = Raises
   \<and> fst (analyze_chart_to_text failing_env init_caches () ''Sales data'' ''id-1'') = Inr failed_call_analysis
   \<and> chart_type failed_call_analysis = JStr ''chart''
   \<and> chart_type failed_call_analysis \<noteq> JStr ''unknown''
   \<and> confidence failed_call_analysis = JFloat (3 / 10)
   \<and> confidence failed_call_analysis \<noteq> JFloat 0
   \<and> failed_call_analysis \<noteq> default_analysis"
proof -
  have "\<forall>p. ask_vision failing_env () p = Some ''Analysis failed''"
    by (simp add: failing_env_calls)
  from analysis_body_failing [OF this, of "''Sales data''"]
  have "fst (analyze_chart_to_text failing_env init_caches () ''Sales data'' ''id-1'') = Inr failed_call_analysis"
    by (simp add: analyze_chart_to_text_def)
  then show ?thesis
    by (simp add: failed_call_analysis_def default_analysis_def ChartAnalysis_def failing_env_def offline_env_def)
qed

text \<open>
  Claim C3, as amended. On two strings the scorer returns
  \<open>|Q \<inter> T| / max(|Q|, 1)\<close> for the token sets \<open>Q\<close> of the query and \<open>T\<close> of the text
  (lower-cased, split at white space); the score lies in \<open>[0,1]\<close>; against the empty
  text it is 0; a query scored against itself gives 1 exactly when it has at least
  one token, and 0 when it has none (duplicates play no role, and the split never
  yields an empty token); on arbitrary values the scorer never raises, and when
  either argument is not a string it returns 0.
\<close>

theorem relevance_scorer_amended:
  "calculate_text_relevance (JStr q) (JStr t) =
     Inr (of_nat (card (set (tokens q) \<inter> set (tokens t))) / of_nat (max (card (set (tokens q))) 1))
   \<and> 0 \<le> relevance q t \<and> relevance q t \<le> 1
   \<and> relevance q [] = 0
   \<and> relevance q q = (if tokens q = [] then 0 else 1)
   \<and> [] \<notin> set (tokens q)
   \<and> (\<exists>r. calculate_text_relevance v w = Inr r)
   \<and> ((\<forall>s. v \<noteq> JStr s) \<or> (\<forall>s. w \<noteq> JStr s) \<longrightarrow> calculate_text_relevance v w = Inr 0)"
proof -
  have "[] \<notin> set (tokens q)"
    by (simp add: tokens_def split_no_empty)
  moreover have "(\<forall>s. v \<noteq> JStr s) \<or> (\<forall>s. w \<noteq> JStr s) \<longrightarrow> calculate_text_relevance v w = Inr 0"
    using calculate_text_relevance_non_str by blast
  ultimately show ?thesis
    using calculate_text_relevance_str [of q t] relevance_range [of q t] relevance_empty_text [of q]
      relevance_self [of q] calculate_text_relevance_total [of v w]
    by blast
qed

theorem relevance_scorer_amended_witness:
  "relevance ''Sales Trends'' ''Sales Trends'' = 1
   \<and> relevance ''Sales Trends'' ''sales of 2023'' = 1 / 2
   \<and> calculate_text_relevance JNull (JStr ''sales'') = Inr 0"
proof -
  have nonempty: "tokens ''Sales Trends'' \<noteq> []"
    by code_simp
  have half: "relevance ''Sales Trends'' ''sales of 2023'' = 1 / 2"
    by code_simp
  have not_str: "(\<forall>s. JNull \<noteq> JStr s) \<or> (\<forall>s. JStr ''sales'' \<noteq> JStr s)"
    by simp
  show ?thesis
    using relevance_scorer_amended [of "''Sales Trends''" "''sales of 2023''" JNull "JStr ''sales''"]
      nonempty half not_str
    by simp
qed

text \<open>
  The claim as stated fails at the empty query: it has no duplicate token and no empty
  token, and its score against itself is 0, not 1.
\<close>

theorem relevance_self_counterexample:
  "distinct (tokens []) \<and> [] \<notin> set (tokens []) \<and> relevance [] [] \<noteq> 1"
  by (simp add: relevance_eq tokens_def lower_def split_def)

text \<open>
  Claim C6, amended. The fact extraction never raises. On a structure record and an
  insight record it works through eight segments in this order: the fact
  \<open>This is a {type}\<close> when a type is present; the fact \<open>Chart title: {title}\<close> when a
  title is present; for each of the first ten data points that has a category and a
  value, the fact \<open>{category}: {value}\<close>; a fact \<open>Trend: {trend}\<close> for each item of the
  trends; the highest-value fact, the lowest-value fact and the average-value fact, each
  when its statistic is present; then the items of the insights as they are. It returns
  the facts of the segments up to and including the first that does not complete, and
  nothing of the later ones: the data points end at the first point that cannot be
  read, and a segment whose entry is not of a kind the code can walk through emits
  nothing. For an insight record of the shape the prompt asks for, every segment
  completes and the facts are those of all eight segments. A structure that is no
  record gives no facts; insights that are no record give the type and title facts
  only. For the data points Q1: 10 and Q2: 20 with a type and nothing else, the facts
  are \<open>This is a {type}\<close>, \<open>Q1: 10\<close>, \<open>Q2: 20\<close>.
\<close>

theorem fact_extraction_order:
  "extract_queryable_facts env (JObj md) (JObj di) content
     = Inr (facts_until (fact_segments (repr env) md di))
   \<and> (\<not> is_obj m \<longrightarrow> extract_queryable_facts env m i content = Inr [])
   \<and> (\<not> is_obj i \<longrightarrow>
        extract_queryable_facts env (JObj md) i content =
          Inr (labelled_fact (repr env) md ''type'' ''This is a ''
               @ labelled_fact (repr env) md ''title'' ''Chart title: ''))
   \<and> (shaped_insights di \<longrightarrow>
        extract_queryable_facts env (JObj md) (JObj di) content =
          Inr (labelled_fact (repr env) md ''type'' ''This is a ''
               @ labelled_fact (repr env) md ''title'' ''Chart title: ''
               @ point_facts (repr env) di
               @ trend_facts (repr env) di
               @ extreme_fact (repr env) (statistics_of di) ''highest'' ''Highest value: ''
               @ extreme_fact (repr env) (statistics_of di) ''lowest'' ''Lowest value: ''
               @ average_fact (repr env) (statistics_of di)
               @ insight_facts di))
   \<and> (t \<noteq> [] \<longrightarrow>
        extract_queryable_facts env (JObj [(''type'', JStr t)]) (JObj [(''data_points'', quarters)]) content =
          Inr [JStr (''This is a '' @ t), JStr ''Q1: 10'', JStr ''Q2: 20''])"
proof -
  have general: "extract_queryable_facts env (JObj md) (JObj di) content
     = Inr (facts_until (fact_segments (repr env) md di))"
    by (simp add: extract_queryable_facts_def facts_run_general)
  have no_structure: "\<not> is_obj m \<longrightarrow> extract_queryable_facts env m i content = Inr []"
    by (simp add: extract_queryable_facts_def facts_run_no_record)
  have no_insights: "\<not> is_obj i \<longrightarrow>
        extract_queryable_facts env (JObj md) i content =
          Inr (labelled_fact (repr env) md ''type'' ''This is a ''
               @ labelled_fact (repr env) md ''title'' ''Chart title: '')"
    by (simp add: extract_queryable_facts_def facts_run_no_insights)
  have all_segments: "shaped_insights di \<longrightarrow>
        extract_queryable_facts env (JObj md) (JObj di) content =
          Inr (labelled_fact (repr env) md ''type'' ''This is a ''
               @ labelled_fact (repr env) md ''title'' ''Chart title: ''
               @ point_facts (repr env) di
               @ trend_facts (repr env) di
               @ extreme_fact (repr env) (statistics_of di) ''highest'' ''Highest value: ''
               @ extreme_fact (repr env) (statistics_of di) ''lowest'' ''Lowest value: ''
               @ average_fact (repr env) (statistics_of di)
               @ insight_facts di)"
    by (simp add: extract_queryable_facts_def facts_run_shaped)
  have shaped: "shaped_insights [(''data_points'', quarters)]"
    by (simp add: shaped_insights_def list_or_missing_def record_or_missing_def present_def
        statistics_of_def quarters_def)
  have "t \<noteq> [] \<longrightarrow>
        facts_run (repr env) (JObj [(''type'', JStr t)]) (JObj [(''data_points'', quarters)]) =
          Ok [JStr (''This is a '' @ t), JStr ''Q1: 10'', JStr ''Q2: 20'']"
    unfolding facts_run_shaped [OF shaped]
    by (simp add: labelled_fact_def present_def point_facts_def
        trend_facts_def extreme_fact_def average_fact_def insight_facts_def statistics_of_def
        quarters_def has_key_def dict_get_def show_int_10 show_int_20)
  then have example: "t \<noteq> [] \<longrightarrow>
        extract_queryable_facts env (JObj [(''type'', JStr t)]) (JObj [(''data_points'', quarters)]) content =
          Inr [JStr (''This is a '' @ t), JStr ''Q1: 10'', JStr ''Q2: 20'']"
    by (simp add: extract_queryable_facts_def)
  from general no_structure no_insights all_segments example show ?thesis
    by blast
qed

theorem fact_extraction_order_witness:
  "extract_queryable_facts offline_env (JObj example_structure) (JObj example_insights) ''text'' =
     Inr [JStr ''This is a bar_chart'', JStr ''Chart title: Sales'', JStr ''Q1: 10'', JStr ''Q2: 20'',
          JStr ''Trend: rising'', JStr ''Highest value: 20 (Q2)'', JStr ''Lowest value: 10 (Q1)'',
          JStr ''Average value: 15'', JStr ''Second quarter doubled'']
   \<and> extract_queryable_facts offline_env (JObj [(''type'', JStr ''bar_chart'')])
         (JObj [(''data_points'', quarters)]) ''text'' =
       Inr [JStr ''This is a bar_chart'', JStr ''Q1: 10'', JStr ''Q2: 20'']
   \<and> extract_queryable_facts offline_env (JArr []) (JObj example_insights) ''text'' = Inr []
   \<and> extract_queryable_facts offline_env (JObj example_structure) (JStr ''none'') ''text''
       = Inr [JStr ''This is a bar_chart'', JStr ''Chart title: Sales'']"
proof -
  have shaped: "shaped_insights example_insights"
    by code_simp
  have segments:
    "labelled_fact (repr offline_env) example_structure ''type'' ''This is a ''
       @ labelled_fact (repr offline_env) example_structure ''title'' ''Chart title: ''
       @ point_facts (repr offline_env) example_insights
       @ trend_facts (repr offline_env) example_insights
       @ extreme_fact (repr offline_env) (statistics_of example_insights) ''highest'' ''Highest value: ''
       @ extreme_fact (repr offline_env) (statistics_of example_insights) ''lowest'' ''Lowest value: ''
       @ average_fact (repr offline_env) (statistics_of example_insights)
       @ insight_facts example_insights
     = [JStr ''This is a bar_chart'', JStr ''Chart title: Sales'', JStr ''Q1: 10'', JStr ''Q2: 20'',
        JStr ''Trend: rising'', JStr ''Highest value: 20 (Q2)'', JStr ''Lowest value: 10 (Q1)'',
        JStr ''Average value: 15'', JStr ''Second quarter doubled'']"
    by code_simp
  have labels:
    "labelled_fact (repr offline_env) example_structure ''type'' ''This is a ''
       @ labelled_fact (repr offline_env) example_structure ''title'' ''Chart title: ''
     = [JStr ''This is a bar_chart'', JStr ''Chart title: Sales'']"
    by code_simp
  have name: "''bar_chart'' \<noteq> []"
    and other: "\<not> is_obj (JArr [])" "\<not> is_obj (JStr ''none'')"
    by simp_all
  note fact = fact_extraction_order [where env = offline_env and md = example_structure
      and di = example_insights and content = "''text''" and t = "''bar_chart''"
      and m = "JArr []" and i = "JObj example_insights"]
  note fact' = fact_extraction_order [where env = offline_env and md = example_structure
      and di = example_insights and content = "''text''" and t = "''bar_chart''"
      and m = "JArr []" and i = "JStr ''none''"]
  from fact shaped have "extract_queryable_facts offline_env (JObj example_structure) (JObj example_insights) ''text'' =
      Inr (labelled_fact (repr offline_env) example_structure ''type'' ''This is a ''
       @ labelled_fact (repr offline_env) example_structure ''title'' ''Chart title: ''
       @ point_facts (repr offline_env) example_insights
       @ trend_facts (repr offline_env) example_insights
       @ extreme_fact (repr offline_env) (statistics_of example_insights) ''highest'' ''Highest value: ''
       @ extreme_fact (repr offline_env) (statistics_of example_insights) ''lowest'' ''Lowest value: ''
       @ average_fact (repr offline_env) (statistics_of example_insights)
       @ insight_facts example_insights)"
    by blast
  then have full: "extract_queryable_facts offline_env (JObj example_structure) (JObj example_insights) ''text'' =
     Inr [JStr ''This is a bar_chart'', JStr ''Chart title: Sales'', JStr ''Q1: 10'', JStr ''Q2: 20'',
          JStr ''Trend: rising'', JStr ''Highest value: 20 (Q2)'', JStr ''Lowest value: 10 (Q1)'',
          JStr ''Average value: 15'', JStr ''Second quarter doubled'']"
    by (simp only: segments)
  from fact name have "extract_queryable_facts offline_env (JObj [(''type'', JStr ''bar_chart'')])
         (JObj [(''data_points'', quarters)]) ''text'' =
       Inr [JStr (''This is a '' @ ''bar_chart''), JStr ''Q1: 10'', JStr ''Q2: 20'']"
    by blast
  then have example: "extract_queryable_facts offline_env (JObj [(''type'', JStr ''bar_chart'')])
         (JObj [(''data_points'', quarters)]) ''text'' =
       Inr [JStr ''This is a bar_chart'', JStr ''Q1: 10'', JStr ''Q2: 20'']"
    by simp
  from fact other(1) have none: "extract_queryable_facts offline_env (JArr []) (JObj example_insights) ''text'' = Inr []"
    by blast
  from fact' other(2) have "extract_queryable_facts offline_env (JObj example_structure) (JStr ''none'') ''text'' =
          Inr (labelled_fact (repr offline_env) example_structure ''type'' ''This is a ''
               @ labelled_fact (repr offline_env) example_structure ''title'' ''Chart title: '')"
    by blast
  then have two: "extract_queryable_facts offline_env (JObj example_structure) (JStr ''none'') ''text''
       = Inr [JStr ''This is a bar_chart'', JStr ''Chart title: Sales'']"
    by (simp only: labels)
  from full example none two show ?thesis
    by blast
qed

text \<open>
  The claim as it stands fails on insight records that leave the prompted shape. With
  the number 5 as the only data point, a trend and an insight, the extraction ends at
  the data point: the type fact is returned, the trend and the insight are not. With the
  string \<open>up\<close> as the trends, there is one trend fact for each character.
\<close>

theorem fact_extraction_counterexample:
  "extract_queryable_facts offline_env (JObj [(''type'', JStr ''bar'')]) (JObj number_point_insights) ''text''
     = Inr [JStr ''This is a bar'']
   \<and> map_of number_point_insights ''trends'' = Some (JArr [JStr ''rising''])
   \<and> map_of number_point_insights ''insights'' = Some (JArr [JStr ''Sales doubled''])
   \<and> extract_queryable_facts offline_env (JObj [(''type'', JStr ''bar'')]) (JObj string_trend_insights) ''text''
     = Inr [JStr ''This is a bar'', JStr ''Trend: u'', JStr ''Trend: p'']"
proof -
  have "extract_queryable_facts offline_env (JObj [(''type'', JStr ''bar'')]) (JObj number_point_insights) ''text''
     = Inr [JStr ''This is a bar'']"
    by code_simp
  moreover have "map_of number_point_insights ''trends'' = Some (JArr [JStr ''rising''])"
    by code_simp
  moreover have "map_of number_point_insights ''insights'' = Some (JArr [JStr ''Sales doubled''])"
    by code_simp
  moreover have "extract_queryable_facts offline_env (JObj [(''type'', JStr ''bar'')]) (JObj string_trend_insights) ''text''
     = Inr [JStr ''This is a bar'', JStr ''Trend: u'', JStr ''Trend: p'']"
    by code_simp
  ultimately show ?thesis
    by simp
qed



text \<open>
  Claim C8. The link cache has one entry per visual id, and a later link for an id
  replaces the earlier one. After \<open>create_visual_text_links\<close> the cache holds, under
  every id, the last link the call created for that id, or the entry that was there when
  the call created none; the links it created are the ones it returns unless the call
  ended by an exception, which returns none of them and keeps the cache writes. When
  the analysis of an image gives two relationships that both make a link, the loop
  over them appends both links and leaves the second one as the only cache entry of
  the image. A cache with distinct keys keeps distinct keys through
  \<open>create_visual_text_links\<close>, so no visual id ever has more than one link in it; the
  cache of a new service is empty.
\<close>

theorem link_cache_one_per_visual:
  "map_of (visual_text_links (snd (create_visual_text_links env s images chunks))) vid
     = cache_after (visual_text_links s) (created_links env s images chunks) vid
   \<and> (fst (create_visual_text_links env s images chunks) = Inr (created_links env s images chunks)
        \<or> fst (create_visual_text_links env s images chunks) = Inr [])
   \<and> (make_link vid r1 = Inr l1 \<and> make_link vid r2 = Inr l2 \<longrightarrow>
        relationships_loop vid [r1, r2] (links, s)
          = Ok (links @ [l1, l2],
                s\<lparr>visual_text_links := dict_set (dict_set (visual_text_links s) vid l1) vid l2\<rparr>)
        \<and> map_of (dict_set (dict_set (visual_text_links s) vid l1) vid l2) vid = Some l2
        \<and> (distinct (map fst (visual_text_links s)) \<longrightarrow>
             filter (\<lambda>kv. fst kv = vid) (dict_set (dict_set (visual_text_links s) vid l1) vid l2)
               = [(vid, l2)]))
   \<and> (distinct (map fst (visual_text_links s)) \<longrightarrow>
        distinct (map fst (visual_text_links (snd (create_visual_text_links env s images chunks))))
        \<and> length (filter (\<lambda>kv. fst kv = vid)
                    (visual_text_links (snd (create_visual_text_links env s images chunks)))) \<le> 1)
   \<and> visual_text_links init_caches = []"
proof -
  from images_loop_cache [of env images chunks "([], s)"]
  have last: "map_of (visual_text_links (snd (create_visual_text_links env s images chunks))) vid
     = cache_after (visual_text_links s) (created_links env s images chunks) vid"
    by (auto simp: create_links_cache created_links_def)
  have returned: "fst (create_visual_text_links env s images chunks) = Inr (created_links env s images chunks)
        \<or> fst (create_visual_text_links env s images chunks) = Inr []"
    by (rule create_links_result)
  have two: "make_link vid r1 = Inr l1 \<and> make_link vid r2 = Inr l2 \<longrightarrow>
        relationships_loop vid [r1, r2] (links, s)
          = Ok (links @ [l1, l2],
                s\<lparr>visual_text_links := dict_set (dict_set (visual_text_links s) vid l1) vid l2\<rparr>)"
    by (simp add: relationships_loop_two)
  have second: "map_of (dict_set (dict_set (visual_text_links s) vid l1) vid l2) vid = Some l2"
    by (simp add: map_of_dict_set)
  have only: "distinct (map fst (visual_text_links s)) \<longrightarrow>
        filter (\<lambda>kv. fst kv = vid) (dict_set (dict_set (visual_text_links s) vid l1) vid l2) = [(vid, l2)]"
    by (simp add: distinct_dict_set entries_dict_set)
  have keys: "distinct (map fst (visual_text_links s)) \<longrightarrow>
      distinct (map fst (visual_text_links (snd (create_visual_text_links env s images chunks))))"
    using images_loop_distinct [of "([], s)" env images chunks]
    by (simp add: create_links_cache)
  have one: "distinct (map fst (visual_text_links (snd (create_visual_text_links env s images chunks))))
      \<longrightarrow> length (filter (\<lambda>kv. fst kv = vid)
                  (visual_text_links (snd (create_visual_text_links env s images chunks)))) \<le> 1"
    by (rule impI) (rule entries_distinct)
  have empty: "visual_text_links init_caches = []"
    by (simp add: init_caches_def)
  from last returned two second only keys one empty show ?thesis
    by blast
qed

theorem link_cache_one_per_visual_witness:
  "(\<exists>l1 l2. create_visual_text_links linking_env init_caches [page5_image] [chunk_on 5]
       = (Inr [l1, l2], init_caches\<lparr>visual_text_links := [(''doc_1_img_1'', l2)]\<rparr>)
       \<and> relationship l1 = JStr ''illustration'' \<and> relationship l2 = JStr ''example''
       \<and> cache_after [] [l1, l2] ''doc_1_img_1'' = Some l2)
   \<and> map_of (visual_text_links (snd (create_visual_text_links linking_env init_caches [page5_image] [chunk_on 5])))
        ''doc_1_img_1''
      = cache_after [] (created_links linking_env init_caches [page5_image] [chunk_on 5]) ''doc_1_img_1''
   \<and> length (filter (\<lambda>kv. fst kv = ''doc_1_img_1'')
        (visual_text_links (snd (create_visual_text_links linking_env init_caches [page5_image] [chunk_on 5])))) \<le> 1
   \<and> (\<exists>l1 l2. relationships_loop ''doc_1_img_1'' (case two_relationships of JArr rels \<Rightarrow> rels | _ \<Rightarrow> [])
                 ([], init_caches)
        = Ok ([l1, l2], init_caches\<lparr>visual_text_links := [(''doc_1_img_1'', l2)]\<rparr>)
        \<and> relationship l2 = JStr ''example'')"
proof -
  let ?l1 = "\<lparr>visual_id = ''doc_1_img_1'', text_chunks = JArr [JStr ''first''],
               relationship = JStr ''illustration'', link_confidence = JFloat (4 / 5)\<rparr>"
  let ?l2 = "\<lparr>visual_id = ''doc_1_img_1'', text_chunks = JArr [JStr ''second''],
               relationship = JStr ''example'', link_confidence = JFloat (1 / 2)\<rparr>"
  let ?r1 = "JObj [(''relationship'', JStr ''illustration''), (''text_chunks'', JArr [JStr ''first'']),
                 (''confidence'', JFloat (4 / 5)), (''explanation'', JStr ''shown'')]"
  let ?r2 = "JObj [(''relationship'', JStr ''example''), (''text_chunks'', JArr [JStr ''second'']),
                 (''confidence'', JFloat (1 / 2)), (''explanation'', JStr ''used'')]"
  have start: "distinct (map fst (visual_text_links init_caches))"
    and empty: "visual_text_links init_caches = []"
    by (simp_all add: init_caches_def)
  have made: "make_link ''doc_1_img_1'' ?r1 = Inr ?l1 \<and> make_link ''doc_1_img_1'' ?r2 = Inr ?l2"
    by code_simp
  have run: "create_visual_text_links linking_env init_caches [page5_image] [chunk_on 5]
     = (Inr [?l1, ?l2], init_caches\<lparr>visual_text_links := [(''doc_1_img_1'', ?l2)]\<rparr>)"
    by code_simp
  have after: "cache_after [] [?l1, ?l2] ''doc_1_img_1'' = Some ?l2"
    by (simp add: cache_after_def last_link_def)
  note fact = link_cache_one_per_visual [where s = init_caches and env = linking_env
      and images = "[page5_image]" and chunks = "[chunk_on 5]" and vid = "''doc_1_img_1''"
      and ?r1.0 = ?r1 and ?r2.0 = ?r2 and ?l1.0 = ?l1 and ?l2.0 = ?l2 and links = "[]"]
  from fact have "map_of (visual_text_links (snd (create_visual_text_links linking_env init_caches [page5_image] [chunk_on 5])))
        ''doc_1_img_1''
      = cache_after (visual_text_links init_caches)
          (created_links linking_env init_caches [page5_image] [chunk_on 5]) ''doc_1_img_1''"
    by blast
  then have last: "map_of (visual_text_links (snd (create_visual_text_links linking_env init_caches [page5_image] [chunk_on 5])))
        ''doc_1_img_1''
      = cache_after [] (created_links linking_env init_caches [page5_image] [chunk_on 5]) ''doc_1_img_1''"
    by (simp only: empty)
  from fact start have one: "length (filter (\<lambda>kv. fst kv = ''doc_1_img_1'')
        (visual_text_links (snd (create_visual_text_links linking_env init_caches [page5_image] [chunk_on 5])))) \<le> 1"
    by blast
  from fact made have "relationships_loop ''doc_1_img_1'' [?r1, ?r2] ([], init_caches)
          = Ok ([] @ [?l1, ?l2],
                init_caches\<lparr>visual_text_links :=
                  dict_set (dict_set (visual_text_links init_caches) ''doc_1_img_1'' ?l1) ''doc_1_img_1'' ?l2\<rparr>)"
    by blast
  then have loop: "relationships_loop ''doc_1_img_1'' (case two_relationships of JArr rels \<Rightarrow> rels | _ \<Rightarrow> [])
                 ([], init_caches)
        = Ok ([?l1, ?l2], init_caches\<lparr>visual_text_links := [(''doc_1_img_1'', ?l2)]\<rparr>)"
    by (simp add: two_relationships_def empty)
  from run after last one loop show ?thesis
    by simp
qed

text \<open>
  Claim C9, amended. With a service, the listing of a document looks at the cached
  links whose visual id contains the document id as a contiguous substring (no
  equality of ids is required). When the \<open>text_chunks\<close> of each of them is a list or a
  string, it returns them in cache order, each with its visual id, relationship,
  confidence and \<open>text_chunks[:3]\<close> (the first three snippets of a list, the first three
  characters of a string), and their number; when one of them has any other value as
  \<open>text_chunks\<close>, it answers 500 and lists nothing. Without a service it answers 503 for
  every document id, and \<open>main.py\<close> never assigns its service.
\<close>

theorem link_listing:
  "get_visual_text_links (Some s) doc =
     (if list_all (\<lambda>l. sliceable (text_chunks l)) (matching_links doc s)
      then Inr \<lparr>document_id = doc, listed_links = map link_view_of (matching_links doc s),
                total_links = length (matching_links doc s)\<rparr>
      else Inl Http500)
   \<and> (l \<in> set (matching_links doc s) \<longleftrightarrow>
        l \<in> snd ` set (visual_text_links s) \<and> (\<exists>pre post. visual_id l = pre @ doc @ post))
   \<and> get_visual_text_links None doc = Inl Http503
   \<and> get_visual_text_links multimodal_service doc = Inl Http503"
proof -
  have members: "l \<in> set (matching_links doc s) \<longleftrightarrow>
        l \<in> snd ` set (visual_text_links s) \<and> (\<exists>pre post. visual_id l = pre @ doc @ post)"
    by (auto simp: matching_links_def str_contains_iff)
  have none: "get_visual_text_links None doc = Inl Http503"
    by (simp add: get_visual_text_links_def)
  have shipped: "get_visual_text_links multimodal_service doc = Inl Http503"
    by (simp add: get_visual_text_links_def multimodal_service_def)
  from get_visual_text_links_total [of s doc] members none shipped show ?thesis
    by blast
qed

theorem link_listing_witness:
  "(\<exists>r. get_visual_text_links (Some example_caches) ''doc_1'' = Inr r
        \<and> map view_visual_id (listed_links r) = [''doc_1_img_1''] \<and> total_links r = 1
        \<and> map text_snippets (listed_links r) = [JArr [JStr ''a b'', JStr ''c d e'']])
   \<and> (\<exists>l \<in> set (matching_links ''doc_1'' example_caches). visual_id l \<noteq> ''doc_1'')"
proof -
  let ?l = "\<lparr>visual_id = ''doc_1_img_1'', text_chunks = JArr [JStr ''a b'', JStr ''c d e''],
           relationship = JStr ''illustration'', link_confidence = JFloat (4 / 5)\<rparr>"
  have sel: "matching_links ''doc_1'' example_caches = [?l]"
    by (simp add: matching_links_def example_caches_def)
  have cached: "?l \<in> snd ` set (visual_text_links example_caches)"
    by (simp add: example_caches_def)
  have sub: "visual_id ?l = [] @ ''doc_1'' @ ''_img_1''"
    by simp
  note fact = link_listing [where s = example_caches and doc = "''doc_1''" and l = ?l]
  from fact cached sub have "?l \<in> set (matching_links ''doc_1'' example_caches)"
    by blast
  moreover have "visual_id ?l \<noteq> ''doc_1''"
    by simp
  ultimately have other: "\<exists>l \<in> set (matching_links ''doc_1'' example_caches). visual_id l \<noteq> ''doc_1''"
    by blast
  from fact have "get_visual_text_links (Some example_caches) ''doc_1'' =
     (if list_all (\<lambda>l. sliceable (text_chunks l)) (matching_links ''doc_1'' example_caches)
      then Inr \<lparr>document_id = ''doc_1'', listed_links = map link_view_of (matching_links ''doc_1'' example_caches),
                total_links = length (matching_links ''doc_1'' example_caches)\<rparr>
      else Inl Http500)"
    by blast
  then have "get_visual_text_links (Some example_caches) ''doc_1'' =
      Inr \<lparr>document_id = ''doc_1'', listed_links = [link_view_of ?l], total_links = 1\<rparr>"
    by (simp add: sel sliceable_def)
  then have "\<exists>r. get_visual_text_links (Some example_caches) ''doc_1'' = Inr r
        \<and> map view_visual_id (listed_links r) = [''doc_1_img_1''] \<and> total_links r = 1
        \<and> map text_snippets (listed_links r) = [JArr [JStr ''a b'', JStr ''c d e'']]"
    by (simp add: link_view_of_def first_three_def)
  with other show ?thesis
    by blast
qed

text \<open>
  The claim as it stands fails in three ways. A reply whose relationship has \<open>null\<close>
  as \<open>text_chunks\<close> is cached as it is, and the listing of the document then answers 500
  instead of listing the link; a reply with a string there is listed with the first
  three characters of the string, not with three snippets; and the service of
  \<open>main.py\<close> is never assigned, so the listing answers 503 for the document.
\<close>

theorem link_listing_counterexample:
  "str_contains ''doc_1'' ''doc_1_img_1''
   \<and> map fst (visual_text_links (snd (create_visual_text_links null_chunks_env init_caches [page5_image] [chunk_on 5])))
       = [''doc_1_img_1'']
   \<and> get_visual_text_links
        (Some (snd (create_visual_text_links null_chunks_env init_caches [page5_image] [chunk_on 5]))) ''doc_1''
       = Inl Http500
   \<and> (\<exists>r. get_visual_text_links
        (Some (snd (create_visual_text_links string_chunks_env init_caches [page5_image] [chunk_on 5]))) ''doc_1''
       = Inr r \<and> map text_snippets (listed_links r) = [JStr ''Sal''])
   \<and> get_visual_text_links multimodal_service ''doc_1'' = Inl Http503"
proof -
  have "str_contains ''doc_1'' ''doc_1_img_1''"
    by code_simp
  moreover have "map fst (visual_text_links (snd (create_visual_text_links null_chunks_env init_caches [page5_image] [chunk_on 5])))
       = [''doc_1_img_1'']"
    by code_simp
  moreover have "get_visual_text_links
        (Some (snd (create_visual_text_links null_chunks_env init_caches [page5_image] [chunk_on 5]))) ''doc_1''
       = Inl Http500"
    by code_simp
  moreover have "get_visual_text_links
        (Some (snd (create_visual_text_links string_chunks_env init_caches [page5_image] [chunk_on 5]))) ''doc_1''
       = Inr \<lparr>document_id = ''doc_1'',
              listed_links = [\<lparr>view_visual_id = ''doc_1_img_1'', view_relationship = JStr ''illustration'',
                               view_confidence = JFloat (4 / 5), text_snippets = JStr ''Sal''\<rparr>],
              total_links = 1\<rparr>"
    by code_simp
  moreover have "get_visual_text_links multimodal_service ''doc_1'' = Inl Http503"
    by code_simp
  ultimately show ?thesis
    by simp
qed

text \<open>
  Claim C10. An analysis returned by \<open>analyze_chart_to_text\<close> has no \<open>image_id\<close>
  attribute, and the call keeps a cache free of such attributes free of them. So after
  any sequence of such calls on a new service the lookup by image id finds nothing for
  every id, and the visual ctx of the search consists of the description
  fragments of the first three related images alone: none of its fragments starts with
  \<open>Chart data:\<close>.
\<close>

theorem no_chart_data_fragment:
  "(fst (analyze_chart_to_text env s img ctx new_id) = Inr a \<longrightarrow> image_id a = None)
   \<and> (no_image_ids s \<longrightarrow> no_image_ids (snd (analyze_chart_to_text env s img ctx new_id)))
   \<and> no_image_ids (analyze_many env init_caches calls)
   \<and> get_chart_analysis_by_image_id (analyze_many env init_caches calls) iid = None
   \<and> visual_context (analyze_many env init_caches calls) related
        = concat (map description_context (take 3 related))
   \<and> (\<forall>f \<in> set (visual_context (analyze_many env init_caches calls) related).
         \<not> is_prefix ''Chart data: '' f)"
proof -
  have start: "no_image_ids init_caches"
    by (simp add: no_image_ids_def init_caches_def)
  then have many: "no_image_ids (analyze_many env init_caches calls)"
    by (rule analyze_many_no_image_ids)
  have "\<forall>f \<in> set (visual_context (analyze_many env init_caches calls) related).
         \<not> is_prefix ''Chart data: '' f"
    using description_context_prefix
    by (auto simp: visual_context_no_image_ids [OF many])
  with many show ?thesis
    using analyze_no_image_id [of env s img ctx new_id a]
      analyze_keeps_no_image_ids [of s env img ctx new_id]
    by (simp add: lookup_no_image_ids visual_context_no_image_ids)
qed

theorem no_chart_data_fragment_witness:
  "map fst (chart_cache (analyze_many failing_env init_caches [((), ''Sales data'', ''id-1'')])) = [''id-1'']
   \<and> get_chart_analysis_by_image_id
        (analyze_many failing_env init_caches [((), ''Sales data'', ''id-1'')]) ''doc_1_img_1'' = None
   \<and> visual_context (analyze_many failing_env init_caches [((), ''Sales data'', ''id-1'')]) [page5_image]
        = [''Related image: Quarterly sales chart'']"
proof -
  have cached: "map fst (chart_cache (analyze_many failing_env init_caches [((), ''Sales data'', ''id-1'')])) = [''id-1'']"
    by code_simp
  have fragment: "concat (map description_context (take 3 [page5_image])) = [''Related image: Quarterly sales chart'']"
    by (simp add: description_context_def page5_image_def)
  show ?thesis
    using no_chart_data_fragment [of failing_env init_caches "()" "''Sales data''" "''id-1''" default_analysis
        "[((), ''Sales data'', ''id-1'')]" "''doc_1_img_1''" "[page5_image]"]
      cached fragment
    by simp
qed

end
